theory Spec2Isabelle
  imports Complex_Main "HOL-Library.Char_ord" "HOL-Library.List_Lexorder"
begin

section \<open>Feed connectors (feeds.ts): reconnect state machine\<close>

text \<open>
  \<^verbatim>\<open>WebSocketConnector\<close> of feeds.ts. Instants are milliseconds since the epoch (the source keeps
  them as ISO strings and reads them back with \<^verbatim>\<open>new Date(..).getTime()\<close>); a timer is modelled by
  whether it is armed, the reconnect timer together with the delay it was armed with.
\<close>

definition BASE_BACKOFF_MS :: int where "BASE_BACKOFF_MS = 2000"
definition MAX_BACKOFF_MS :: int where "MAX_BACKOFF_MS = 60000"

datatype feed_status = Connecting | Connected | Disconnected

record FeedState =
  status :: feed_status
  lastMessage :: "int option"
  lastError :: "string option"
  connectedAt :: "int option"
  disconnectedAt :: "int option"
  reconnectCount :: int
  totalUptime :: int
  lastHeartbeat :: "int option"

record WebSocketConnector =
  socket :: bool
  reconnectTimer :: "int option"
  inactivityTimer :: bool
  pingTimer :: bool
  backoff :: int
  state :: FeedState

definition initialFeedState :: FeedState where
  "initialFeedState = \<lparr>status = Connecting, lastMessage = None, lastError = None,
     connectedAt = None, disconnectedAt = None, reconnectCount = 0, totalUptime = 0,
     lastHeartbeat = None\<rparr>"

definition newConnector :: WebSocketConnector where
  "newConnector = \<lparr>socket = False, reconnectTimer = None, inactivityTimer = False,
     pingTimer = False, backoff = BASE_BACKOFF_MS, state = initialFeedState\<rparr>"

definition scheduleReconnect :: "WebSocketConnector \<Rightarrow> WebSocketConnector" where
  "scheduleReconnect c =
     (if reconnectTimer c \<noteq> None then c
      else (let delay = backoff c
            in c\<lparr>backoff := min (backoff c * 2) MAX_BACKOFF_MS, reconnectTimer := Some delay\<rparr>))"

definition cleanupSocket :: "WebSocketConnector \<Rightarrow> WebSocketConnector" where
  "cleanupSocket c = c\<lparr>socket := False, inactivityTimer := False, pingTimer := False\<rparr>"

definition handleClose :: "int \<Rightarrow> string \<Rightarrow> WebSocketConnector \<Rightarrow> WebSocketConnector" where
  "handleClose now reason c =
     (let c1 = (case connectedAt (state c) of
                  Some t \<Rightarrow> if status (state c) = Connected
                            then c\<lparr>state := (state c)\<lparr>totalUptime := totalUptime (state c) + (now - t)\<rparr>\<rparr>
                            else c
                | None \<Rightarrow> c);
          c2 = cleanupSocket c1;
          c3 = c2\<lparr>state := (state c2)\<lparr>status := Disconnected, lastError := Some reason,
                                          disconnectedAt := Some now\<rparr>\<rparr>
      in scheduleReconnect c3)"

text \<open>
  \<^verbatim>\<open>connect\<close>: the flag says whether \<^verbatim>\<open>new WebSocket(url)\<close> throws; the listeners it registers
  are the functions \<open>onOpen\<close>, \<open>onMessage\<close> and \<open>handleClose\<close>.
\<close>

definition connect :: "bool \<Rightarrow> string \<Rightarrow> WebSocketConnector \<Rightarrow> WebSocketConnector" where
  "connect throws err c =
     (let c1 = c\<lparr>state := (state c)\<lparr>status := Connecting\<rparr>\<rparr>
      in if throws
         then scheduleReconnect (c1\<lparr>state := (state c1)\<lparr>status := Disconnected, lastError := Some err\<rparr>\<rparr>)
         else c1\<lparr>socket := True\<rparr>)"

definition start :: "bool \<Rightarrow> string \<Rightarrow> WebSocketConnector \<Rightarrow> WebSocketConnector" where
  "start throws err c = (if status (state c) = Connected then c else connect throws err c)"

definition onOpen :: "int \<Rightarrow> WebSocketConnector \<Rightarrow> WebSocketConnector" where
  "onOpen now c =
     (let c1 = c\<lparr>backoff := BASE_BACKOFF_MS\<rparr>;
          s = state c1;
          s1 = s\<lparr>status := Connected, lastError := None, connectedAt := Some now,
                 lastHeartbeat := Some now,
                 reconnectCount := (if disconnectedAt s \<noteq> None then reconnectCount s + 1
                                    else reconnectCount s)\<rparr>
      in c1\<lparr>state := s1, pingTimer := True, inactivityTimer := True\<rparr>)"

text \<open>The reconnect timer's callback: it clears the timer and connects again.\<close>

definition reconnectTimerFires :: "bool \<Rightarrow> string \<Rightarrow> WebSocketConnector \<Rightarrow> WebSocketConnector" where
  "reconnectTimerFires throws err c = connect throws err (c\<lparr>reconnectTimer := None\<rparr>)"

text \<open>
  One failed connection attempt: the constructor throws, or the socket is created and, without
  ever opening, reports \<^verbatim>\<open>error\<close> followed by \<^verbatim>\<open>close\<close>, or \<^verbatim>\<open>close\<close> alone.
\<close>

datatype attempt_failure = ConstructorThrows string | SocketFails int | SocketCloses int

fun failAttempt :: "attempt_failure \<Rightarrow> WebSocketConnector \<Rightarrow> WebSocketConnector" where
  "failAttempt (ConstructorThrows err) c = c"
| "failAttempt (SocketFails now) c = handleClose now ''closed'' (handleClose now ''error'' c)"
| "failAttempt (SocketCloses now) c = handleClose now ''closed'' c"

fun attemptThrows :: "attempt_failure \<Rightarrow> bool" where
  "attemptThrows (ConstructorThrows err) = True"
| "attemptThrows (SocketFails now) = False"
| "attemptThrows (SocketCloses now) = False"

fun attemptError :: "attempt_failure \<Rightarrow> string" where
  "attemptError (ConstructorThrows err) = err"
| "attemptError (SocketFails now) = ''''"
| "attemptError (SocketCloses now) = ''''"

definition firstAttemptFails :: "attempt_failure \<Rightarrow> WebSocketConnector \<Rightarrow> WebSocketConnector" where
  "firstAttemptFails f c = failAttempt f (start (attemptThrows f) (attemptError f) c)"

definition retryFails :: "attempt_failure \<Rightarrow> WebSocketConnector \<Rightarrow> WebSocketConnector" where
  "retryFails f c = failAttempt f (reconnectTimerFires (attemptThrows f) (attemptError f) c)"

text \<open>
  The delays armed by a run of consecutive failed retries (no socket ever opens), in order:
  after each failure the armed reconnect timer holds the delay of the next attempt.
\<close>

fun consecutiveFailures :: "attempt_failure list \<Rightarrow> WebSocketConnector \<Rightarrow> int option list" where
  "consecutiveFailures [] c = []"
| "consecutiveFailures (f # fs) c =
     (let c1 = retryFails f c in reconnectTimer c1 # consecutiveFailures fs c1)"

text \<open>The same from a freshly constructed connector whose first attempt fails too.\<close>

fun reconnectDelays :: "attempt_failure list \<Rightarrow> int option list" where
  "reconnectDelays [] = []"
| "reconnectDelays (f # fs) =
     (let c1 = firstAttemptFails f newConnector in reconnectTimer c1 # consecutiveFailures fs c1)"

section \<open>The embedded SQL store (storage.ts, adapter.ts)\<close>

text \<open>
  \<^verbatim>\<open>EventRecord\<close> of the shared types. A JavaScript number is a \<open>real\<close>, \<^verbatim>\<open>null\<close> is \<open>None\<close>;
  \<^verbatim>\<open>reportType\<close> is a string, a number or null. The field \<^verbatim>\<open>type\<close> is \<open>eventType\<close> here.
\<close>

datatype report_type = ReportNumber real | ReportString string

record EventRecord =
  eventId :: string
  source :: string
  eventType :: string
  reportType :: "report_type option"
  time :: string
  issueTime :: "string option"
  receiveTime :: string
  receiveSource :: string
  latitude :: "real option"
  longitude :: "real option"
  magnitude :: "real option"
  depth :: "real option"
  intensity :: "real option"
  region :: "string option"
  advisory :: "string option"
  revision :: "string option"

text \<open>
  The tables of \<^verbatim>\<open>ensureTables\<close> that the modelled operations touch. \<^verbatim>\<open>events\<close> is kept in
  insertion (rowid) order and holds the column values as \<^verbatim>\<open>insert\<close> binds them;
  \<^verbatim>\<open>rate_limits\<close> and \<^verbatim>\<open>metrics_rollup\<close> are keyed by their primary keys.
\<close>

record rate_limit_row =
  rl_count :: int
  rl_window_start :: "int option"

record request_log =
  log_timestamp :: int
  log_endpoint :: string
  log_method :: string
  log_status :: int
  log_duration_ms :: "real option"
  log_ip :: string
  log_user_agent :: string

record rollup_row =
  rollup_value :: real
  rollup_count :: int

type_synonym rollup_key = "int \<times> int \<times> string \<times> string"

record database =
  events :: "EventRecord list"
  rate_limits :: "string \<rightharpoonup> rate_limit_row"
  request_logs :: "request_log list"
  metrics_rollup :: "rollup_key \<rightharpoonup> rollup_row"

definition empty_database :: database where
  "empty_database = \<lparr>events = [], rate_limits = Map.empty, request_logs = [],
     metrics_rollup = Map.empty\<rparr>"

subsection \<open>Statements, as the SQL engine executes them\<close>

text \<open>\<^verbatim>\<open>INSERT OR IGNORE INTO events\<close>: a row whose primary key \<^verbatim>\<open>eventId\<close> is taken is dropped.\<close>

definition sql_insert_or_ignore_event :: "EventRecord \<Rightarrow> database \<Rightarrow> database" where
  "sql_insert_or_ignore_event ev db =
     (if eventId ev \<in> set (map eventId (events db)) then db
      else db\<lparr>events := events db @ [ev]\<rparr>)"

text \<open>
  \<^verbatim>\<open>SELECT * FROM events [WHERE ..] ORDER BY time DESC\<close>: \<^verbatim>\<open>time\<close> is a TEXT column, compared
  bytewise. Rows with equal \<^verbatim>\<open>time\<close> come in an order SQL leaves to the engine (here: the
  later row first).
\<close>

definition sql_order_by_time_desc :: "EventRecord list \<Rightarrow> EventRecord list" where
  "sql_order_by_time_desc rows = rev (sort_key time rows)"

text \<open>\<^verbatim>\<open>LIMIT n\<close>: a negative limit is no limit.\<close>

definition sql_limit :: "int \<Rightarrow> 'a list \<Rightarrow> 'a list" where
  "sql_limit n rows = (if n < 0 then rows else take (nat n) rows)"

subsection \<open>SqliteAdapter (adapter.ts)\<close>

text \<open>
  \<^verbatim>\<open>run\<close> executes the statement and returns the literal \<^verbatim>\<open>{ changes: 1 }\<close>, whatever the
  statement did. The result type of the interface is \<^verbatim>\<open>{ changes?: number } | undefined\<close>.
\<close>

datatype run_result = Undefined | Result "int option"

definition SqliteAdapter_run :: "(database \<Rightarrow> database) \<Rightarrow> database \<Rightarrow> run_result \<times> database" where
  "SqliteAdapter_run statement db = (Result (Some 1), statement db)"

text \<open>\<^verbatim>\<open>first\<close> returns the first row of the cursor, or null.\<close>

definition SqliteAdapter_first :: "(database \<Rightarrow> 'r list) \<Rightarrow> database \<Rightarrow> 'r option" where
  "SqliteAdapter_first query db = (case query db of [] \<Rightarrow> None | row # rest \<Rightarrow> Some row)"

definition SqliteAdapter_all :: "(database \<Rightarrow> 'r list) \<Rightarrow> database \<Rightarrow> 'r list" where
  "SqliteAdapter_all query db = query db"

subsection \<open>EventStore (storage.ts)\<close>

text \<open>
  The loop of \<^verbatim>\<open>insert\<close>: one \<^verbatim>\<open>stmt.run\<close> per event; \<^verbatim>\<open>inserted\<close> grows when the result has
  \<^verbatim>\<open>changes === 1\<close>.
\<close>

fun EventStore_insert_loop :: "EventRecord list \<Rightarrow> nat \<Rightarrow> database \<Rightarrow> nat \<times> database" where
  "EventStore_insert_loop [] inserted db = (inserted, db)"
| "EventStore_insert_loop (ev # evs) inserted db =
     (case SqliteAdapter_run (sql_insert_or_ignore_event ev) db of
        (result, db1) \<Rightarrow>
          EventStore_insert_loop evs
            (case result of
               Result (Some n) \<Rightarrow> if n = 1 then inserted + 1 else inserted
             | Result None \<Rightarrow> inserted
             | Undefined \<Rightarrow> inserted)
            db1)"

definition EventStore_insert :: "EventRecord list \<Rightarrow> database \<Rightarrow> nat \<times> database" where
  "EventStore_insert evs db = (if evs = [] then (0, db) else EventStore_insert_loop evs 0 db)"

text \<open>
  \<^verbatim>\<open>deserialize\<close> coerces every column to the type of its field: a string stays a string, a
  finite number a number, null stays null (for \<^verbatim>\<open>issueTime\<close>, \<^verbatim>\<open>region\<close>, \<^verbatim>\<open>advisory\<close>,
  \<^verbatim>\<open>revision\<close>, \<^verbatim>\<open>reportType\<close> and the numeric fields). On the column values that \<^verbatim>\<open>insert\<close>
  binds, each of these coercions returns its argument. (The engine's column affinity, which
  hands a numeric \<^verbatim>\<open>reportType\<close> back as text, is not modelled.)
\<close>

definition numeric_column :: "real option \<Rightarrow> real option" where
  "numeric_column v = (case v of Some x \<Rightarrow> Some x | None \<Rightarrow> None)"

definition deserialize :: "EventRecord \<Rightarrow> EventRecord" where
  "deserialize row =
     \<lparr>eventId = eventId row, source = source row, eventType = eventType row,
      reportType = (case reportType row of Some r \<Rightarrow> Some r | None \<Rightarrow> None),
      time = time row,
      issueTime = (case issueTime row of Some s \<Rightarrow> Some s | None \<Rightarrow> None),
      receiveTime = receiveTime row, receiveSource = receiveSource row,
      latitude = numeric_column (latitude row), longitude = numeric_column (longitude row),
      magnitude = numeric_column (magnitude row), depth = numeric_column (depth row),
      intensity = numeric_column (intensity row),
      region = (case region row of Some s \<Rightarrow> Some s | None \<Rightarrow> None),
      advisory = (case advisory row of Some s \<Rightarrow> Some s | None \<Rightarrow> None),
      revision = (case revision row of Some s \<Rightarrow> Some s | None \<Rightarrow> None)\<rparr>"

definition EventStore_latest :: "database \<Rightarrow> EventRecord option" where
  "EventStore_latest db =
     (case SqliteAdapter_first (\<lambda>d. sql_limit 1 (sql_order_by_time_desc (events d))) db of
        Some row \<Rightarrow> Some (deserialize row)
      | None \<Rightarrow> None)"

definition EventStore_count :: "database \<Rightarrow> nat" where
  "EventStore_count db = length (events db)"

text \<open>
  \<^verbatim>\<open>ListQuery\<close>: an absent or empty filter adds no clause; \<^verbatim>\<open>limit\<close> (here \<open>queryLimit\<close>) is \<open>None\<close> when it is
  absent or not a finite number, and then 20.
\<close>

record ListQuery =
  since :: "string option"
  until :: "string option"
  querySource :: "string option"
  queryType :: "string option"
  queryLimit :: "int option"

text \<open>One optional clause of the WHERE: it constrains a row when the filter is a non-empty string.\<close>

definition list_clause :: "string option \<Rightarrow> (string \<Rightarrow> bool) \<Rightarrow> bool" where
  "list_clause param holds =
     (case param of Some s \<Rightarrow> (if s = [] then True else holds s) | None \<Rightarrow> True)"

definition list_where :: "ListQuery \<Rightarrow> EventRecord \<Rightarrow> bool" where
  "list_where q row =
     (list_clause (since q) (\<lambda>s. s \<le> time row) \<and>
      list_clause (until q) (\<lambda>s. time row \<le> s) \<and>
      list_clause (querySource q) (\<lambda>s. source row = s) \<and>
      list_clause (queryType q) (\<lambda>s. eventType row = s))"

definition EventStore_list :: "ListQuery \<Rightarrow> database \<Rightarrow> EventRecord list" where
  "EventStore_list q db =
     map deserialize
       (SqliteAdapter_all
          (\<lambda>d. sql_limit (case queryLimit q of Some n \<Rightarrow> n | None \<Rightarrow> 20)
                 (sql_order_by_time_desc (filter (list_where q) (events d)))) db)"

section \<open>ConfigManager (config.ts)\<close>

record RateLimitRule =
  maxRequests :: int
  windowSeconds :: int

record MetricsConfig =
  rollupInterval :: string
  retentionDays :: int
  rollupRetentionDays :: int

record RateLimitConfig =
  enabled :: bool
  limits :: "string \<rightharpoonup> RateLimitRule"

record MonitoringConfig =
  parserTimeoutSeconds :: int
  feedTimeoutSeconds :: int
  cleanupIntervalHours :: int

record Config =
  metrics :: MetricsConfig
  rateLimit :: RateLimitConfig
  monitoring :: MonitoringConfig

definition DEFAULT_LIMITS :: "(string \<times> RateLimitRule) list" where
  "DEFAULT_LIMITS =
     [(''POST /v1/events'', \<lparr>maxRequests = 60, windowSeconds = 60\<rparr>),
      (''GET /v1/events/latest'', \<lparr>maxRequests = 120, windowSeconds = 60\<rparr>),
      (''GET /v1/events'', \<lparr>maxRequests = 60, windowSeconds = 60\<rparr>),
      (''GET /v1/ws'', \<lparr>maxRequests = 10, windowSeconds = 300\<rparr>),
      (''GET /v1/status'', \<lparr>maxRequests = 120, windowSeconds = 60\<rparr>),
      (''GET /v1/health'', \<lparr>maxRequests = 120, windowSeconds = 60\<rparr>),
      (''GET /v1/monitoring'', \<lparr>maxRequests = 120, windowSeconds = 60\<rparr>),
      (''GET /v1/metrics'', \<lparr>maxRequests = 60, windowSeconds = 60\<rparr>),
      (''GET /v1/metrics/timeseries'', \<lparr>maxRequests = 30, windowSeconds = 60\<rparr>),
      (''GET /admin/dashboard'', \<lparr>maxRequests = 60, windowSeconds = 60\<rparr>),
      (''GET /admin/config'', \<lparr>maxRequests = 60, windowSeconds = 60\<rparr>),
      (''PUT /admin/config'', \<lparr>maxRequests = 30, windowSeconds = 60\<rparr>),
      (''POST /admin/actions'', \<lparr>maxRequests = 30, windowSeconds = 60\<rparr>)]"

definition DEFAULT_CONFIG :: Config where
  "DEFAULT_CONFIG =
     \<lparr>metrics = \<lparr>rollupInterval = ''1m'', retentionDays = 7, rollupRetentionDays = 90\<rparr>,
      rateLimit = \<lparr>enabled = True, limits = map_of DEFAULT_LIMITS\<rparr>,
      monitoring = \<lparr>parserTimeoutSeconds = 60, feedTimeoutSeconds = 30,
                    cleanupIntervalHours = 1\<rparr>\<rparr>"

text \<open>\<^verbatim>\<open>intervals[rollupInterval] || 60_000\<close>: a token outside the table falls back to a minute.\<close>

definition getRollupIntervalMs :: "Config \<Rightarrow> int" where
  "getRollupIntervalMs cfg =
     (case map_of [(''1m'', 60000), (''5m'', 300000), (''15m'', 900000), (''1h'', 3600000)]
             (rollupInterval (metrics cfg)) of
        Some ms \<Rightarrow> ms
      | None \<Rightarrow> 60000)"

definition getRollupIntervalSeconds :: "Config \<Rightarrow> int" where
  "getRollupIntervalSeconds cfg = getRollupIntervalMs cfg div 1000"

definition getRateLimit :: "Config \<Rightarrow> string \<Rightarrow> RateLimitRule option" where
  "getRateLimit cfg endpoint =
     (if \<not> enabled (rateLimit cfg) then None else limits (rateLimit cfg) endpoint)"

definition isRateLimitEnabled :: "Config \<Rightarrow> bool" where
  "isRateLimitEnabled cfg = enabled (rateLimit cfg)"

definition getParserTimeoutSeconds :: "Config \<Rightarrow> int" where
  "getParserTimeoutSeconds cfg = parserTimeoutSeconds (monitoring cfg)"

section \<open>Signer (signer.ts)\<close>

record JsonWebKey =
  jwk_key_ops :: "string list"
  jwk_ext :: bool
  jwk_alg :: string
  jwk_crv :: string
  jwk_d :: string
  jwk_x :: string
  jwk_kty :: string

definition PRIVATE_KEY_JWK :: JsonWebKey where
  "PRIVATE_KEY_JWK =
     \<lparr>jwk_key_ops = [''sign''], jwk_ext = True, jwk_alg = ''Ed25519'', jwk_crv = ''Ed25519'',
      jwk_d = ''cJKVaNJt4PiObVc8wE3rtcHMBf8xQs76dkXuXKaCpkM'',
      jwk_x = ''pTRkHaM6w9vmetzPFEbcwrxjjCn1Kc_mLzfkuu-Iro8'',
      jwk_kty = ''OKP''\<rparr>"

text \<open>
  The runtime functions the signer calls, as parameters: \<^verbatim>\<open>crypto.subtle.importKey\<close>,
  \<^verbatim>\<open>crypto.subtle.sign("Ed25519", key, bytes)\<close> (the signature bytes; Ed25519 signing is a
  function of key and message, RFC 8032) and \<^verbatim>\<open>JSON.stringify\<close>. A string is its UTF-8 bytes,
  so \<^verbatim>\<open>TextEncoder.encode\<close> returns its argument.
\<close>

record ('d, 'k) runtime =
  importKey :: "JsonWebKey \<Rightarrow> 'k"
  subtleSign :: "'k \<Rightarrow> string \<Rightarrow> string"
  stringify :: "'d \<Rightarrow> string"

definition TextEncoder_encode :: "string \<Rightarrow> string" where
  "TextEncoder_encode s = s"

text \<open>\<^verbatim>\<open>btoa\<close> on a string of chars 0..255: standard base64 with padding.\<close>

definition base64_alphabet :: string where
  "base64_alphabet = ''ABCDEFGHIJKLMNOPQRSTUVWXYZabcdefghijklmnopqrstuvwxyz0123456789+/''"

definition base64_digit :: "nat \<Rightarrow> char" where
  "base64_digit n = base64_alphabet ! (n mod 64)"

fun btoa :: "string \<Rightarrow> string" where
  "btoa [] = []"
| "btoa [a] =
     (let n = of_char a * 65536
      in [base64_digit (n div 262144), base64_digit (n div 4096), CHR ''='', CHR ''=''])"
| "btoa [a, b] =
     (let n = of_char a * 65536 + of_char b * 256
      in [base64_digit (n div 262144), base64_digit (n div 4096), base64_digit (n div 64),
          CHR ''=''])"
| "btoa (a # b # c # rest) =
     (let n = of_char a * 65536 + of_char b * 256 + of_char c
      in [base64_digit (n div 262144), base64_digit (n div 4096), base64_digit (n div 64),
          base64_digit n] @ btoa rest)"

record SignedEvent =
  payload :: string
  signature :: string
  timestamp :: int

text \<open>The signer's only state is the cached key: imported on the first call, reused after.\<close>

definition Signer_getPrivateKey :: "('d, 'k) runtime \<Rightarrow> 'k option \<Rightarrow> 'k \<times> 'k option" where
  "Signer_getPrivateKey rt key =
     (case key of
        None \<Rightarrow> (let k = importKey rt PRIVATE_KEY_JWK in (k, Some k))
      | Some k \<Rightarrow> (k, Some k))"

definition Signer_sign :: "('d, 'k) runtime \<Rightarrow> int \<Rightarrow> 'd \<Rightarrow> 'k option \<Rightarrow> SignedEvent \<times> 'k option" where
  "Signer_sign rt nowMs data key =
     (case Signer_getPrivateKey rt key of
        (k, key1) \<Rightarrow>
          (let payloadString = stringify rt data;
               signatureBuffer = subtleSign rt k (TextEncoder_encode payloadString);
               signature = btoa signatureBuffer
           in (\<lparr>payload = payloadString, signature = signature, timestamp = nowMs\<rparr>, key1)))"

section \<open>IngestService (ingest.ts) and the Durable Object that owns it (durable-object.ts)\<close>

record ParserStats =
  totalParses :: real
  successfulParses :: real
  failedParses :: real
  eventsIngested :: real
  averageDelayMs :: real
  uptime :: real

record Heartbeat =
  kmaConnection :: bool
  lastParseTime :: string
  lastEventTime :: "string option"
  delayMs :: real
  error :: "string option"
  stats :: "ParserStats option"

text \<open>An entry \<^verbatim>\<open>{timestamp, error}\<close> of \<^verbatim>\<open>parserErrorHistory\<close>.\<close>

record ParserError =
  errorTimestamp :: string
  errorText :: string

definition MAX_PARSER_ERRORS :: nat where "MAX_PARSER_ERRORS = 10"

record IngestService =
  parserHeartbeat :: "Heartbeat option"
  parserErrorHistory :: "ParserError list"
  needsKmaSync :: bool
  lastStoredAt :: "string option"

definition newIngestService :: IngestService where
  "newIngestService = \<lparr>parserHeartbeat = None, parserErrorHistory = [], needsKmaSync = True,
     lastStoredAt = None\<rparr>"

text \<open>
  \<^verbatim>\<open>handleHeartbeat\<close>: \<^verbatim>\<open>unshift\<close> puts the entry in front, \<^verbatim>\<open>splice(MAX_PARSER_ERRORS)\<close> cuts the
  array to its first ten. \<^verbatim>\<open>if (heartbeat.error)\<close> is false for null and for the empty string.
\<close>

definition handleHeartbeat :: "Heartbeat \<Rightarrow> IngestService \<Rightarrow> IngestService" where
  "handleHeartbeat hb s =
     (let s1 = s\<lparr>parserHeartbeat := Some hb\<rparr>;
          s2 = (case error hb of
                  None \<Rightarrow> s1
                | Some e \<Rightarrow>
                    if e = [] then s1
                    else (let h = \<lparr>errorTimestamp = lastParseTime hb, errorText = e\<rparr>
                                    # parserErrorHistory s1
                          in s1\<lparr>parserErrorHistory :=
                                  (if length h > MAX_PARSER_ERRORS then take MAX_PARSER_ERRORS h
                                   else h)\<rparr>))
      in if needsKmaSync s2 \<and> kmaConnection hb then s2\<lparr>needsKmaSync := False\<rparr> else s2)"

definition getSyncStatus :: "IngestService \<Rightarrow> bool" where
  "getSyncStatus s = needsKmaSync s"

text \<open>
  \<^verbatim>\<open>CanariaSqlDurableObject\<close>, the object handed to the routes as \<^verbatim>\<open>deps\<close>. Of the connection
  manager the model keeps the payloads given to \<^verbatim>\<open>broadcast\<close>, of the backup service the
  projections given to \<^verbatim>\<open>waitUntil(saveProjection(..))\<close>, both in call order. \<open>engineDown\<close> says
  that the SQL engine currently throws on every statement; the operations of the store are
  modelled on a working engine, and only the health check looks at the flag.
\<close>

record FeedStates =
  wolfx :: FeedState
  p2p :: FeedState

record 'k CanariaSqlDurableObject =
  store :: database
  engineDown :: bool
  config :: Config
  ingestService :: IngestService
  signerKey :: "'k option"
  feedStates :: FeedStates
  broadcasts :: "SignedEvent list list"
  backups :: "EventRecord list list"

definition newDurableObject :: "'k CanariaSqlDurableObject" where
  "newDurableObject =
     \<lparr>store = empty_database, engineDown = False, config = DEFAULT_CONFIG,
      ingestService = newIngestService, signerKey = None,
      feedStates = \<lparr>wolfx = initialFeedState, p2p = initialFeedState\<rparr>,
      broadcasts = [], backups = []\<rparr>"

text \<open>\<^verbatim>\<open>Promise.all(events.map((ev) => this.signer.sign(ev)))\<close>: the results keep the order of the batch.\<close>

fun signAll :: "('d, 'k) runtime \<Rightarrow> int \<Rightarrow> 'd list \<Rightarrow> 'k option \<Rightarrow> SignedEvent list \<times> 'k option" where
  "signAll rt nowMs [] key = ([], key)"
| "signAll rt nowMs (ev # evs) key =
     (case Signer_sign rt nowMs ev key of
        (signed, key1) \<Rightarrow>
          (case signAll rt nowMs evs key1 of
             (rest, key2) \<Rightarrow> (signed # rest, key2)))"

text \<open>
  \<^verbatim>\<open>handleIncomingEvents\<close>. \<open>nowIso\<close> is \<^verbatim>\<open>new Date().toISOString()\<close> and \<open>nowMs\<close> is \<^verbatim>\<open>Date.now()\<close>
  at the time of the call. The \<^verbatim>\<open>try\<close> of the source catches what the store or the signer
  throw; here the engine works and the signer's runtime functions return.
\<close>

definition handleIncomingEvents ::
  "(EventRecord, 'k) runtime \<Rightarrow> int \<Rightarrow> string \<Rightarrow> EventRecord list \<Rightarrow>
   'k CanariaSqlDurableObject \<Rightarrow> 'k CanariaSqlDurableObject" where
  "handleIncomingEvents rt nowMs nowIso evs deps =
     (if evs = [] then deps
      else (case EventStore_insert evs (store deps) of
              (inserted, db1) \<Rightarrow>
                if inserted > 0
                then (case signAll rt nowMs evs (signerKey deps) of
                        (signedEvents, key1) \<Rightarrow>
                          (let allEvents =
                                 EventStore_list \<lparr>since = None, until = None, querySource = None,
                                    queryType = None, queryLimit = Some 1000\<rparr> db1
                           in deps\<lparr>store := db1,
                                   ingestService := (ingestService deps)\<lparr>lastStoredAt := Some nowIso\<rparr>,
                                   signerKey := key1,
                                   broadcasts := broadcasts deps @ [signedEvents],
                                   backups := backups deps @ [allEvents]\<rparr>))
                else deps\<lparr>store := db1\<rparr>))"

subsection \<open>POST /v1/events (routes/events.ts)\<close>

record IngestPayload =
  heartbeat :: "Heartbeat option"
  payloadEvents :: "EventRecord list option"

datatype events_response = SyncTrue | NoBody

text \<open>
  The handler, statement by statement: the heartbeat goes to \<^verbatim>\<open>handleHeartbeat\<close>, the events to
  \<^verbatim>\<open>handleIncomingEvents\<close>, then \<^verbatim>\<open>wasNeeded\<close> and \<^verbatim>\<open>hasKma\<close> are read, the heartbeat goes to
  \<^verbatim>\<open>handleHeartbeat\<close> a second time, and the response is chosen.
\<close>

definition passHeartbeat :: "IngestPayload \<Rightarrow> 'k CanariaSqlDurableObject \<Rightarrow> 'k CanariaSqlDurableObject" where
  "passHeartbeat body deps =
     (case heartbeat body of
        Some hb \<Rightarrow> deps\<lparr>ingestService := handleHeartbeat hb (ingestService deps)\<rparr>
      | None \<Rightarrow> deps)"

definition postEvents ::
  "(EventRecord, 'k) runtime \<Rightarrow> int \<Rightarrow> string \<Rightarrow> IngestPayload \<Rightarrow>
   'k CanariaSqlDurableObject \<Rightarrow> (int \<times> events_response) \<times> 'k CanariaSqlDurableObject" where
  "postEvents rt nowMs nowIso body deps =
     (let deps1 = passHeartbeat body deps;
          deps2 = (case payloadEvents body of
                     Some evs \<Rightarrow>
                       if evs \<noteq> [] then handleIncomingEvents rt nowMs nowIso evs deps1 else deps1
                   | None \<Rightarrow> deps1);
          wasNeeded = needsKmaSync (ingestService deps2);
          hasKma = (case heartbeat body of Some hb \<Rightarrow> kmaConnection hb | None \<Rightarrow> False);
          deps3 = passHeartbeat body deps2
      in if wasNeeded \<and> hasKma then ((200, SyncTrue), deps3) else ((204, NoBody), deps3))"

text \<open>A run of POSTs, each with its clock readings; the responses in order and the final state.\<close>

fun postEventsAll ::
  "(EventRecord, 'k) runtime \<Rightarrow> (int \<times> string \<times> IngestPayload) list \<Rightarrow>
   'k CanariaSqlDurableObject \<Rightarrow> (int \<times> events_response) list \<times> 'k CanariaSqlDurableObject" where
  "postEventsAll rt [] deps = ([], deps)"
| "postEventsAll rt ((nowMs, nowIso, body) # reqs) deps =
     (case postEvents rt nowMs nowIso body deps of
        (resp, deps1) \<Rightarrow>
          (case postEventsAll rt reqs deps1 of
             (resps, deps2) \<Rightarrow> (resp # resps, deps2)))"

section \<open>HealthMonitor (monitoring.ts) and GET /v1/health (routes/health.ts)\<close>

text \<open>
  The heartbeat age is a JavaScript number that may be \<^verbatim>\<open>Infinity\<close> (no heartbeat) or \<^verbatim>\<open>NaN\<close>
  (\<^verbatim>\<open>lastParseTime\<close> is not a date). \<open>parseDate\<close> is \<^verbatim>\<open>new Date(s).getTime()\<close>, with \<open>None\<close> for NaN.
\<close>

datatype js_number = Finite int | Infinity | NaN

definition getHeartbeatAge :: "(string \<Rightarrow> int option) \<Rightarrow> int \<Rightarrow> Heartbeat option \<Rightarrow> js_number" where
  "getHeartbeatAge parseDate nowMs parserHb =
     (case parserHb of
        None \<Rightarrow> Infinity
      | Some hb \<Rightarrow>
          (case parseDate (lastParseTime hb) of
             None \<Rightarrow> NaN
           | Some t \<Rightarrow> Finite ((nowMs - t) div 1000)))"

text \<open>\<^verbatim>\<open>age < limit\<close> for a finite limit: false for \<^verbatim>\<open>Infinity\<close> and for \<^verbatim>\<open>NaN\<close>.\<close>

fun js_less :: "js_number \<Rightarrow> int \<Rightarrow> bool" where
  "js_less (Finite a) b = (a < b)"
| "js_less Infinity b = False"
| "js_less NaN b = False"

datatype sql_error = SqlError

text \<open>\<^verbatim>\<open>store.count()\<close> as the health check calls it: it throws when the engine does.\<close>

definition EventStore_count_call :: "bool \<Rightarrow> database \<Rightarrow> sql_error + nat" where
  "EventStore_count_call down db = (if down then Inl SqlError else Inr (EventStore_count db))"

record HealthChecks =
  parser :: bool
  feeds :: bool
  database :: bool

record HealthCheckResponse =
  healthy :: bool
  checks :: HealthChecks

definition checkHealth ::
  "Config \<Rightarrow> (string \<Rightarrow> int option) \<Rightarrow> int \<Rightarrow> Heartbeat option \<Rightarrow> FeedStates \<Rightarrow>
   bool \<Rightarrow> database \<Rightarrow> HealthCheckResponse" where
  "checkHealth cfg parseDate nowMs parserHb states down db =
     (let parserHealthy = js_less (getHeartbeatAge parseDate nowMs parserHb) (getParserTimeoutSeconds cfg);
          feedsHealthy = (status (wolfx states) = Connected \<or> status (p2p states) = Connected);
          databaseHealthy = (case EventStore_count_call down db of Inr n \<Rightarrow> True | Inl e \<Rightarrow> False)
      in \<lparr>healthy = (parserHealthy \<and> feedsHealthy \<and> databaseHealthy),
          checks = \<lparr>parser = parserHealthy, feeds = feedsHealthy, database = databaseHealthy\<rparr>\<rparr>)"

text \<open>
  The route reads \<^verbatim>\<open>deps.parserHeartbeat\<close>, \<^verbatim>\<open>deps.feedStates\<close> and \<^verbatim>\<open>deps.store\<close>. \<^verbatim>\<open>deps\<close> is the
  Durable Object, which has a \<^verbatim>\<open>feedStates\<close> and a \<^verbatim>\<open>store\<close> but no property \<^verbatim>\<open>parserHeartbeat\<close>
  (the heartbeat lives in \<^verbatim>\<open>deps.ingestService.parserHeartbeat\<close>, and \<^verbatim>\<open>ApiDependencies\<close> declares
  neither): the property read yields \<^verbatim>\<open>undefined\<close>, for which \<^verbatim>\<open>getHeartbeatAge\<close> takes its
  \<^verbatim>\<open>!parserHeartbeat\<close> branch, as for null.
\<close>

definition deps_parserHeartbeat :: "'k CanariaSqlDurableObject \<Rightarrow> Heartbeat option" where
  "deps_parserHeartbeat deps = None"

definition getHealth ::
  "(string \<Rightarrow> int option) \<Rightarrow> int \<Rightarrow> 'k CanariaSqlDurableObject \<Rightarrow> int \<times> HealthCheckResponse" where
  "getHealth parseDate nowMs deps =
     (let health = checkHealth (config deps) parseDate nowMs (deps_parserHeartbeat deps)
                     (feedStates deps) (engineDown deps) (store deps)
      in (if healthy health then 200 else 503, health))"

section \<open>RateLimiter (ratelimit.ts)\<close>

text \<open>
  The remainder \<^verbatim>\<open>a % b\<close> on integers: it has the sign of the dividend, and it is \<^verbatim>\<open>NaN\<close>
  (\<open>None\<close>) when \<open>b\<close> is 0. Arithmetic on \<^verbatim>\<open>NaN\<close> gives \<^verbatim>\<open>NaN\<close>, and a \<^verbatim>\<open>NaN\<close> bound to a
  statement is stored as NULL.
\<close>

definition js_mod :: "int \<Rightarrow> int \<Rightarrow> int" where
  "js_mod a b = sgn a * (\<bar>a\<bar> mod \<bar>b\<bar>)"

definition js_rem :: "int \<Rightarrow> int \<Rightarrow> int option" where
  "js_rem a b = (if b = 0 then None else Some (js_mod a b))"

record RateLimitResult =
  allowed :: bool
  limit :: int
  remaining :: int
  resetAt :: "int option"

text \<open>\<^verbatim>\<open>windowStart = now - (now % limit.windowSeconds)\<close> with \<^verbatim>\<open>now = Math.floor(Date.now() / 1000)\<close>.\<close>

definition windowStart :: "RateLimitRule \<Rightarrow> int \<Rightarrow> int option" where
  "windowStart rule nowMs =
     (let now = nowMs div 1000
      in map_option (\<lambda>r. now - r) (js_rem now (windowSeconds rule)))"

text \<open>\<^verbatim>\<open>SELECT count, window_start FROM rate_limits WHERE key = ?\<close>\<close>

definition sql_select_rate_limit :: "string \<Rightarrow> database \<Rightarrow> rate_limit_row list" where
  "sql_select_rate_limit k db = (case rate_limits db k of Some r \<Rightarrow> [r] | None \<Rightarrow> [])"

text \<open>\<^verbatim>\<open>INSERT OR REPLACE INTO rate_limits (key, count, window_start) VALUES (?, ?, ?)\<close>\<close>

definition sql_replace_rate_limit :: "string \<Rightarrow> int \<Rightarrow> int option \<Rightarrow> database \<Rightarrow> database" where
  "sql_replace_rate_limit k c w db =
     db\<lparr>rate_limits := (rate_limits db)(k \<mapsto> \<lparr>rl_count = c, rl_window_start = w\<rparr>)\<rparr>"

text \<open>The key \<^verbatim>\<open>`${ip}:${endpoint}`\<close>.\<close>

definition rateLimitKey :: "string \<Rightarrow> string \<Rightarrow> string" where
  "rateLimitKey ip endpoint = ip @ '':'' @ endpoint"

definition RateLimiter_check ::
  "Config \<Rightarrow> int \<Rightarrow> string \<Rightarrow> string \<Rightarrow> database \<Rightarrow> RateLimitResult \<times> database" where
  "RateLimiter_check cfg nowMs ip endpoint db =
     (if \<not> isRateLimitEnabled cfg
      then (\<lparr>allowed = True, limit = 0, remaining = 0, resetAt = Some 0\<rparr>, db)
      else (case getRateLimit cfg endpoint of
              None \<Rightarrow> (\<lparr>allowed = True, limit = 0, remaining = 0, resetAt = Some 0\<rparr>, db)
            | Some rule \<Rightarrow>
                (let key = rateLimitKey ip endpoint;
                     start = windowStart rule nowMs;
                     row = SqliteAdapter_first (sql_select_rate_limit key) db;
                     count = (case row of
                                None \<Rightarrow> 0
                              | Some r \<Rightarrow>
                                  (case rl_window_start r of
                                     None \<Rightarrow> 0
                                   | Some w \<Rightarrow> if Some w = start then rl_count r else 0));
                     isAllowed = (count < maxRequests rule);
                     left = max 0 (maxRequests rule - count - 1);
                     reset = map_option (\<lambda>w. w + windowSeconds rule) start
                 in (\<lparr>allowed = isAllowed, limit = maxRequests rule, remaining = left,
                      resetAt = reset\<rparr>,
                     if isAllowed
                     then snd (SqliteAdapter_run (sql_replace_rate_limit key (count + 1) start) db)
                     else db))))"

text \<open>A run of \<^verbatim>\<open>check\<close> calls for one client and endpoint, at the given clock readings.\<close>

fun checkAll ::
  "Config \<Rightarrow> string \<Rightarrow> string \<Rightarrow> int list \<Rightarrow> database \<Rightarrow> RateLimitResult list \<times> database" where
  "checkAll cfg ip endpoint [] db = ([], db)"
| "checkAll cfg ip endpoint (t # ts) db =
     (case RateLimiter_check cfg t ip endpoint db of
        (res, db1) \<Rightarrow>
          (case checkAll cfg ip endpoint ts db1 of
             (rest, db2) \<Rightarrow> (res # rest, db2)))"

text \<open>
  The counter that counts in window \<open>w\<close>: the stored \<^verbatim>\<open>count\<close> when the row is of that window,
  0 when there is no row or the row is of another window.
\<close>

definition counterIn :: "int \<Rightarrow> string \<Rightarrow> database \<Rightarrow> int" where
  "counterIn w k db =
     (case rate_limits db k of
        None \<Rightarrow> 0
      | Some r \<Rightarrow> if rl_window_start r = Some w then rl_count r else 0)"

text \<open>
  The stored row does not count in window \<open>w\<close>: there is none, or its \<^verbatim>\<open>window_start\<close> differs.
\<close>

definition newWindow :: "int \<Rightarrow> string \<Rightarrow> database \<Rightarrow> bool" where
  "newWindow w k db =
     (case rate_limits db k of None \<Rightarrow> True | Some r \<Rightarrow> rl_window_start r \<noteq> Some w)"

section \<open>MetricsCollector (metrics.ts)\<close>

subsection \<open>The label strings\<close>

text \<open>
  \<^verbatim>\<open>String(n)\<close> for an integer (a status code): its decimal digits, with a minus sign below 0.
\<close>

definition decimal_digit :: "nat \<Rightarrow> char" where
  "decimal_digit n = ''0123456789'' ! (n mod 10)"

function decimal :: "nat \<Rightarrow> string" where
  "decimal n = (if n < 10 then [decimal_digit n] else decimal (n div 10) @ [decimal_digit n])"
  by pat_completeness auto
termination
  by (relation "measure (\<lambda>n. n)") auto

definition String_int :: "int \<Rightarrow> string" where
  "String_int n = (if n < 0 then CHR ''-'' # decimal (nat (- n)) else decimal (nat n))"

text \<open>
  \<^verbatim>\<open>JSON.stringify\<close> of a string: quotes around it; the quote and the backslash are escaped
  with a backslash, the control characters below 0x20 by their short escape or as \<^verbatim>\<open>\u00XX\<close>.
\<close>

definition hex_digit :: "nat \<Rightarrow> char" where
  "hex_digit n = ''0123456789abcdef'' ! (n mod 16)"

definition json_escape :: "char \<Rightarrow> string" where
  "json_escape c =
     (let n = (of_char c :: nat)
      in if n = 8 then [CHR 0x5C, CHR ''b'']
         else if n = 9 then [CHR 0x5C, CHR ''t'']
         else if n = 10 then [CHR 0x5C, CHR ''n'']
         else if n = 12 then [CHR 0x5C, CHR ''f'']
         else if n = 13 then [CHR 0x5C, CHR ''r'']
         else if n = 34 then [CHR 0x5C, CHR 0x22]
         else if n = 92 then [CHR 0x5C, CHR 0x5C]
         else if n < 32 then [CHR 0x5C, CHR ''u'', CHR ''0'', CHR ''0'', hex_digit (n div 16), hex_digit n]
         else [c])"

definition json_string :: "string \<Rightarrow> string" where
  "json_string s = CHR 0x22 # concat (map json_escape s) @ [CHR 0x22]"

text \<open>\<^verbatim>\<open>JSON.stringify({ endpoint: row.endpoint, status: String(row.status) })\<close>\<close>

definition requestLabels :: "string \<Rightarrow> int \<Rightarrow> string" where
  "requestLabels endpoint st =
     ''{'' @ json_string ''endpoint'' @ '':'' @ json_string endpoint @ '','' @
       json_string ''status'' @ '':'' @ json_string (String_int st) @ ''}''"

text \<open>\<^verbatim>\<open>JSON.stringify({ endpoint: row.endpoint })\<close>\<close>

definition latencyLabels :: "string \<Rightarrow> string" where
  "latencyLabels endpoint = ''{'' @ json_string ''endpoint'' @ '':'' @ json_string endpoint @ ''}''"

subsection \<open>The rollup query and its upserts\<close>

text \<open>
  \<^verbatim>\<open>SELECT endpoint, status, COUNT(*) as count, AVG(duration_ms) as avg_duration
  FROM request_logs WHERE timestamp >= ? AND timestamp < ? GROUP BY endpoint, status\<close>.
  \<^verbatim>\<open>AVG\<close> is over the values that are not NULL, and NULL when there is none. SQL leaves the
  order of the groups to the engine: \<open>groupOrder\<close> is the order in which the engine hands out the
  groups, given their keys in order of first appearance.
\<close>

record rollup_group =
  group_endpoint :: string
  group_status :: int
  group_count :: int
  group_avg_duration :: "real option"

fun non_null :: "'a option list \<Rightarrow> 'a list" where
  "non_null [] = []"
| "non_null (None # vs) = non_null vs"
| "non_null (Some x # vs) = x # non_null vs"

definition sql_avg :: "real option list \<Rightarrow> real option" where
  "sql_avg vs =
     (case non_null vs of
        [] \<Rightarrow> None
      | x # xs \<Rightarrow> Some (sum_list (x # xs) / real (length (x # xs))))"

definition sql_rollup_query ::
  "((string \<times> int) list \<Rightarrow> (string \<times> int) list) \<Rightarrow> int \<Rightarrow> int \<Rightarrow> database \<Rightarrow> rollup_group list" where
  "sql_rollup_query groupOrder from to db =
     (let rows = filter (\<lambda>r. from \<le> log_timestamp r \<and> log_timestamp r < to) (request_logs db);
          keys = remdups (map (\<lambda>r. (log_endpoint r, log_status r)) rows)
      in map (\<lambda>(e, s).
                (let grp = filter (\<lambda>r. log_endpoint r = e \<and> log_status r = s) rows
                 in \<lparr>group_endpoint = e, group_status = s, group_count = int (length grp),
                      group_avg_duration = sql_avg (map log_duration_ms grp)\<rparr>))
           (groupOrder keys))"

text \<open>
  \<^verbatim>\<open>INSERT OR REPLACE INTO metrics_rollup (timestamp, interval_seconds, metric_name, labels,
  value, count) VALUES (?, ?, ?, ?, ?, ?)\<close>: the first four columns are the primary key.
\<close>

definition sql_replace_rollup :: "rollup_key \<Rightarrow> rollup_row \<Rightarrow> database \<Rightarrow> database" where
  "sql_replace_rollup k v db = db\<lparr>metrics_rollup := (metrics_rollup db)(k \<mapsto> v)\<rparr>"

text \<open>The body of \<^verbatim>\<open>for (const row of requestRows)\<close>.\<close>

definition rollupRow :: "int \<Rightarrow> int \<Rightarrow> rollup_group \<Rightarrow> database \<Rightarrow> database" where
  "rollupRow windowFrom intervalSeconds row db =
     (let labels = requestLabels (group_endpoint row) (group_status row);
          db1 = snd (SqliteAdapter_run
                  (sql_replace_rollup (windowFrom, intervalSeconds, ''requests_total'', labels)
                     \<lparr>rollup_value = real_of_int (group_count row), rollup_count = 1\<rparr>) db)
      in (case group_avg_duration row of
            Some avg \<Rightarrow>
              snd (SqliteAdapter_run
                (sql_replace_rollup
                   (windowFrom, intervalSeconds, ''request_duration_avg'',
                    latencyLabels (group_endpoint row))
                   \<lparr>rollup_value = avg, rollup_count = group_count row\<rparr>) db1)
          | None \<Rightarrow> db1))"

record MetricsCollector =
  lastRollup :: int
  lastCleanup :: int

text \<open>
  \<^verbatim>\<open>currentWindow = now - (now % intervalSeconds)\<close>; \<^verbatim>\<open>getRollupIntervalSeconds\<close> is never 0.
\<close>

definition currentWindow :: "Config \<Rightarrow> int \<Rightarrow> int" where
  "currentWindow cfg nowMs =
     (let now = nowMs div 1000 in now - js_mod now (getRollupIntervalSeconds cfg))"

definition performRollup ::
  "((string \<times> int) list \<Rightarrow> (string \<times> int) list) \<Rightarrow> Config \<Rightarrow> int \<Rightarrow>
   MetricsCollector \<times> database \<Rightarrow> MetricsCollector \<times> database" where
  "performRollup groupOrder cfg nowMs st =
     (case st of
        (m, db) \<Rightarrow>
          (let intervalSeconds = getRollupIntervalSeconds cfg;
               window = currentWindow cfg nowMs;
               requestRows = SqliteAdapter_all
                  (sql_rollup_query groupOrder (window - intervalSeconds) window) db
           in (m\<lparr>lastRollup := nowMs\<rparr>,
               fold (rollupRow (window - intervalSeconds) intervalSeconds) requestRows db)))"

text \<open>\<^verbatim>\<open>logRequest\<close>: one more row in \<^verbatim>\<open>request_logs\<close>.\<close>

definition logRequest ::
  "int \<Rightarrow> string \<Rightarrow> string \<Rightarrow> int \<Rightarrow> real \<Rightarrow> string \<Rightarrow> string \<Rightarrow> database \<Rightarrow> database" where
  "logRequest nowMs endpoint method st durationMs ip userAgent db =
     db\<lparr>request_logs := request_logs db @
        [\<lparr>log_timestamp = nowMs div 1000, log_endpoint = endpoint, log_method = method,
          log_status = st, log_duration_ms = Some durationMs, log_ip = ip,
          log_user_agent = userAgent\<rparr>]\<rparr>"

section \<open>Normalizers and the P2P feed handler (normalizers.ts, feeds.ts)\<close>

text \<open>
  A decoded frame is a JSON value, as \<^verbatim>\<open>JSON.parse\<close> builds it: an object is the list of its
  properties, each key once. A property that is absent reads as \<^verbatim>\<open>undefined\<close>, here \<open>None\<close>.
\<close>

datatype json =
    JNull
  | JBool bool
  | JNumber real
  | JString string
  | JArray "json list"
  | JObject "(string \<times> json) list"

text \<open>
  The runtime functions the normalizers call, as parameters: the clock (\<^verbatim>\<open>new Date().toISOString()\<close>
  and \<^verbatim>\<open>Date.now()\<close>), \<^verbatim>\<open>new Date(s).toISOString()\<close> (\<open>None\<close> when the date is invalid),
  \<^verbatim>\<open>String(n)\<close> for a number and \<^verbatim>\<open>String(v)\<close> for any value, \<^verbatim>\<open>Number(s)\<close> for a string
  (\<open>None\<close> when the result is not finite) and \<^verbatim>\<open>s.replace(/\s+/g, "_")\<close>.
\<close>

record js_runtime =
  currentIso :: string
  currentMillis :: int
  dateToIso :: "string \<Rightarrow> string option"
  numberToString :: "real \<Rightarrow> string"
  anyToString :: "json \<Rightarrow> string"
  stringToNumber :: "string \<Rightarrow> real option"
  spacesToUnderscore :: "string \<Rightarrow> string"

subsection \<open>Reading a validated object\<close>

definition stringProp :: "(string \<times> json) list \<Rightarrow> string \<Rightarrow> string option" where
  "stringProp props k = (case map_of props k of Some (JString s) \<Rightarrow> Some s | _ \<Rightarrow> None)"

definition numberProp :: "(string \<times> json) list \<Rightarrow> string \<Rightarrow> real option" where
  "numberProp props k = (case map_of props k of Some (JNumber n) \<Rightarrow> Some n | _ \<Rightarrow> None)"

definition objectProp :: "(string \<times> json) list \<Rightarrow> string \<Rightarrow> (string \<times> json) list option" where
  "objectProp props k = (case map_of props k of Some (JObject ps) \<Rightarrow> Some ps | _ \<Rightarrow> None)"

text \<open>\<^verbatim>\<open>obj?.key\<close> for a string property of an optional object.\<close>

definition optionalStringProp :: "(string \<times> json) list option \<Rightarrow> string \<Rightarrow> string option" where
  "optionalStringProp obj k = (case obj of Some ps \<Rightarrow> stringProp ps k | None \<Rightarrow> None)"

text \<open>\<^verbatim>\<open>a || b\<close> on strings that may be undefined: \<open>a\<close> when it is a non-empty string, else \<open>b\<close>.\<close>

definition orElse :: "string option \<Rightarrow> string option \<Rightarrow> string option" where
  "orElse a b = (case a of Some s \<Rightarrow> if s = [] then b else Some s | None \<Rightarrow> b)"

text \<open>\<^verbatim>\<open>a || null\<close>.\<close>

definition orNull :: "string option \<Rightarrow> string option" where
  "orNull a = (case a of Some s \<Rightarrow> if s = [] then None else Some s | None \<Rightarrow> None)"

text \<open>\<^verbatim>\<open>!value\<close>: null, false, 0 and the empty string are falsy; objects and arrays are not.\<close>

fun falsy :: "json \<Rightarrow> bool" where
  "falsy JNull = True"
| "falsy (JBool b) = (\<not> b)"
| "falsy (JNumber n) = (n = 0)"
| "falsy (JString s) = (s = [])"
| "falsy (JArray xs) = False"
| "falsy (JObject ps) = False"

subsection \<open>The zod schema \<^verbatim>\<open>P2PSchema\<close>\<close>

text \<open>
  \<^verbatim>\<open>z.string().optional()\<close> and \<^verbatim>\<open>z.number().optional()\<close> accept an absent property or one of the
  type (null is refused); \<^verbatim>\<open>z.any().optional()\<close> accepts everything; \<^verbatim>\<open>z.object({..}).optional()\<close>
  accepts an absent property or an object whose listed properties validate.
\<close>

definition optionalString :: "(string \<times> json) list \<Rightarrow> string \<Rightarrow> bool" where
  "optionalString props k =
     (case map_of props k of None \<Rightarrow> True | Some (JString s) \<Rightarrow> True | Some other \<Rightarrow> False)"

definition optionalNumber :: "(string \<times> json) list \<Rightarrow> string \<Rightarrow> bool" where
  "optionalNumber props k =
     (case map_of props k of None \<Rightarrow> True | Some (JNumber n) \<Rightarrow> True | Some other \<Rightarrow> False)"

definition optionalObject ::
  "(string \<times> json) list \<Rightarrow> string \<Rightarrow> ((string \<times> json) list \<Rightarrow> bool) \<Rightarrow> bool" where
  "optionalObject props k valid =
     (case map_of props k of None \<Rightarrow> True | Some (JObject ps) \<Rightarrow> valid ps | Some other \<Rightarrow> False)"

definition issueSchema :: "(string \<times> json) list \<Rightarrow> bool" where
  "issueSchema ps =
     (optionalString ps ''time'' \<and> optionalString ps ''eventId'' \<and> optionalString ps ''id'' \<and>
      optionalString ps ''serial'' \<and> optionalString ps ''type'')"

definition areaSchema :: "json \<Rightarrow> bool" where
  "areaSchema v = (case v of JObject ps \<Rightarrow> optionalNumber ps ''peer'' | other \<Rightarrow> False)"

definition areasSchema :: "(string \<times> json) list \<Rightarrow> bool" where
  "areasSchema props =
     (case map_of props ''areas'' of
        None \<Rightarrow> True
      | Some (JArray xs) \<Rightarrow> list_all areaSchema xs
      | Some other \<Rightarrow> False)"

definition hypocenterSchema :: "(string \<times> json) list \<Rightarrow> bool" where
  "hypocenterSchema ps = optionalString ps ''name''"

definition earthquakeSchema :: "(string \<times> json) list \<Rightarrow> bool" where
  "earthquakeSchema ps =
     (optionalString ps ''time'' \<and> optionalObject ps ''hypocenter'' hypocenterSchema)"

definition P2PSchema :: "json \<Rightarrow> (string \<times> json) list option" where
  "P2PSchema raw =
     (case raw of
        JObject props \<Rightarrow>
          if (case map_of props ''code'' of Some (JNumber c) \<Rightarrow> True | other \<Rightarrow> False) \<and>
             optionalString props ''time'' \<and> optionalString props ''created_at'' \<and>
             optionalObject props ''issue'' issueSchema \<and>
             optionalString props ''id'' \<and> optionalString props ''_id'' \<and>
             optionalNumber props ''count'' \<and> optionalNumber props ''confidence'' \<and>
             areasSchema props \<and>
             optionalObject props ''earthquake'' earthquakeSchema
          then Some props else None
      | other \<Rightarrow> None)"

subsection \<open>Helpers of normalizers.ts\<close>

text \<open>\<^verbatim>\<open>numeric\<close>: a string goes through \<^verbatim>\<open>Number\<close>; only a finite number is kept.\<close>

definition numeric :: "js_runtime \<Rightarrow> json option \<Rightarrow> real option" where
  "numeric rt v =
     (case v of
        Some (JNumber n) \<Rightarrow> Some n
      | Some (JString s) \<Rightarrow> stringToNumber rt s
      | other \<Rightarrow> None)"

text \<open>
  \<^verbatim>\<open>buildSyntheticId\<close>: the parts that are not null, undefined or the empty string, each as a
  string with its runs of white space replaced, joined by \<^verbatim>\<open>-\<close> behind the prefix.
\<close>

datatype id_part = PartString string | PartNumber real | PartNone

fun partStrings :: "js_runtime \<Rightarrow> id_part list \<Rightarrow> string list" where
  "partStrings rt [] = []"
| "partStrings rt (PartNone # ps) = partStrings rt ps"
| "partStrings rt (PartString s # ps) =
     (if s = [] then partStrings rt ps else spacesToUnderscore rt s # partStrings rt ps)"
| "partStrings rt (PartNumber n # ps) =
     spacesToUnderscore rt (numberToString rt n) # partStrings rt ps"

fun joinDash :: "string list \<Rightarrow> string" where
  "joinDash [] = []"
| "joinDash [s] = s"
| "joinDash (s # t # ss) = s @ ''-'' @ joinDash (t # ss)"

definition buildSyntheticId :: "js_runtime \<Rightarrow> string \<Rightarrow> id_part list \<Rightarrow> string" where
  "buildSyntheticId rt prefix parts =
     (let normalized = joinDash (partStrings rt parts)
      in prefix @ ''-'' @
         (if normalized = [] then numberToString rt (real_of_int (currentMillis rt)) else normalized))"

text \<open>\<^verbatim>\<open>s.replace(" ", "T")\<close> replaces the first blank only.\<close>

fun replaceFirstBlank :: "string \<Rightarrow> string" where
  "replaceFirstBlank [] = []"
| "replaceFirstBlank (c # cs) = (if c = CHR '' '' then CHR ''T'' # cs else c # replaceFirstBlank cs)"

definition endsWithZ :: "string \<Rightarrow> bool" where
  "endsWithZ s = (case rev s of [] \<Rightarrow> False | c # cs \<Rightarrow> c = CHR ''Z'')"

definition normalizeTime :: "js_runtime \<Rightarrow> string option \<Rightarrow> string" where
  "normalizeTime rt timeStr =
     (case timeStr of
        None \<Rightarrow> currentIso rt
      | Some s \<Rightarrow>
          if s = [] then currentIso rt
          else if CHR ''T'' \<in> set s \<and> (endsWithZ s \<or> CHR ''+'' \<in> set s) then s
          else (let isoLike = replaceFirstBlank (map (\<lambda>c. if c = CHR ''/'' then CHR ''-'' else c) s);
                    isoLike1 = (if CHR ''+'' \<notin> set isoLike \<and> \<not> endsWithZ isoLike
                                then isoLike @ ''+09:00'' else isoLike)
                in (case dateToIso rt isoLike1 of None \<Rightarrow> currentIso rt | Some converted \<Rightarrow> converted)))"

subsection \<open>\<^verbatim>\<open>normalizeP2pEvent\<close>\<close>

definition optionPart :: "string option \<Rightarrow> id_part" where
  "optionPart s = (case s of Some t \<Rightarrow> PartString t | None \<Rightarrow> PartNone)"

definition numberPart :: "real option \<Rightarrow> id_part" where
  "numberPart n = (case n of Some x \<Rightarrow> PartNumber x | None \<Rightarrow> PartNone)"

text \<open>The branch for code 9611 (user reports).\<close>

definition normalizeUserReport :: "js_runtime \<Rightarrow> (string \<times> json) list \<Rightarrow> EventRecord" where
  "normalizeUserReport rt props =
     (let t = normalizeTime rt (orElse (stringProp props ''time'') (stringProp props ''created_at''));
          issued = (case orNull (optionalStringProp (objectProp props ''issue'') ''time'') of
                      Some s \<Rightarrow> normalizeTime rt (Some s)
                    | None \<Rightarrow> t)
      in \<lparr>eventId =
            (case orElse (stringProp props ''id'') (orNull (stringProp props ''_id'')) of
               Some s \<Rightarrow> s
             | None \<Rightarrow> buildSyntheticId rt ''p2p'' [PartString t, PartString ''9611'']),
          source = ''P2PQUAKE'', eventType = ''UserReport'', reportType = Some (ReportNumber 9611),
          time = t, issueTime = Some issued, receiveTime = currentIso rt, receiveSource = ''P2P'',
          latitude = None, longitude = None, magnitude = None, depth = None, intensity = None,
          region = Some (''User Reports: '' @
                     numberToString rt (case numberProp props ''count'' of
                                          Some c \<Rightarrow> if c = 0 then 0 else c
                                        | None \<Rightarrow> 0)),
          advisory = (case numberProp props ''confidence'' of
                        Some c \<Rightarrow> if c = 0 then None
                                  else Some (''Confidence: '' @ numberToString rt c)
                      | None \<Rightarrow> None),
          revision = Some ''final''\<rparr>)"

text \<open>The branch for code 555 (area detections): the areas are counted, their peers summed.\<close>

definition areaPeers :: "json \<Rightarrow> real" where
  "areaPeers area =
     (case area of
        JObject ps \<Rightarrow> (case numberProp ps ''peer'' of Some p \<Rightarrow> p | None \<Rightarrow> 0)
      | other \<Rightarrow> 0)"

definition normalizeDetection :: "js_runtime \<Rightarrow> (string \<times> json) list \<Rightarrow> EventRecord" where
  "normalizeDetection rt props =
     (let t = normalizeTime rt (stringProp props ''time'');
          areas = (case map_of props ''areas'' of Some (JArray xs) \<Rightarrow> xs | other \<Rightarrow> []);
          areaCount = length areas;
          totalPeers = sum_list (map areaPeers areas)
      in \<lparr>eventId =
            (case orElse (stringProp props ''id'') (orNull (stringProp props ''_id'')) of
               Some s \<Rightarrow> s
             | None \<Rightarrow> buildSyntheticId rt ''p2p'' [PartString t, PartString ''555'']),
          source = ''P2PQUAKE'', eventType = ''EEWDetection'', reportType = Some (ReportNumber 555),
          time = t, issueTime = Some t, receiveTime = currentIso rt, receiveSource = ''P2P'',
          latitude = None, longitude = None, magnitude = None, depth = None, intensity = None,
          region = Some (''Detected in '' @ numberToString rt (real areaCount) @ '' area'' @
                     (if areaCount = 1 then '''' else ''s'') @ '' (Total peers: '' @
                     numberToString rt totalPeers @ '')''),
          advisory = None,
          revision = Some ''final''\<rparr>)"

text \<open>Every other code: the earthquake bulletin.\<close>

definition normalizeBulletin :: "js_runtime \<Rightarrow> real \<Rightarrow> (string \<times> json) list \<Rightarrow> EventRecord" where
  "normalizeBulletin rt code props =
     (let eq = (case objectProp props ''earthquake'' of Some ps \<Rightarrow> ps | None \<Rightarrow> []);
          hypocenter = (case objectProp eq ''hypocenter'' of Some ps \<Rightarrow> ps | None \<Rightarrow> []);
          issue = objectProp props ''issue'';
          t = normalizeTime rt
                (orElse (stringProp props ''time'')
                   (orElse (stringProp eq ''time'') (optionalStringProp issue ''time'')));
          issued = (case orNull (optionalStringProp issue ''time'') of
                      Some s \<Rightarrow> Some (normalizeTime rt (Some s))
                    | None \<Rightarrow> None);
          lat = numeric rt (map_of hypocenter ''latitude'');
          lon = numeric rt (map_of hypocenter ''longitude'');
          mag = numeric rt (map_of eq ''magnitude'');
          dep = numeric rt (map_of hypocenter ''depth'')
      in \<lparr>eventId =
            (case orElse (stringProp props ''id'')
                    (orElse (optionalStringProp issue ''eventId'')
                       (orNull (optionalStringProp issue ''id''))) of
               Some s \<Rightarrow> s
             | None \<Rightarrow>
                 buildSyntheticId rt ''p2p''
                   [PartString t, numberPart lat, numberPart lon, numberPart mag,
                    PartNumber code, optionPart (optionalStringProp issue ''serial'')]),
          source = ''P2PQUAKE'',
          eventType = (if code = 551 then ''information'' else numberToString rt code),
          reportType = Some (ReportNumber code),
          time = t, issueTime = issued, receiveTime = currentIso rt, receiveSource = ''P2P'',
          latitude = lat, longitude = lon, magnitude = mag, depth = dep,
          intensity = numeric rt (map_of eq ''maxScale''),
          region = orNull (stringProp hypocenter ''name''),
          advisory = (case map_of props ''tsunami'' of
                        Some v \<Rightarrow> if falsy v then None else Some (anyToString rt v)
                      | None \<Rightarrow> None),
          revision = orNull (optionalStringProp issue ''type'')\<rparr>)"

definition normalizeP2pEvent :: "js_runtime \<Rightarrow> json \<Rightarrow> EventRecord option" where
  "normalizeP2pEvent rt raw =
     (case P2PSchema raw of
        None \<Rightarrow> None
      | Some props \<Rightarrow>
          (case numberProp props ''code'' of
             None \<Rightarrow> None
           | Some code \<Rightarrow>
               if code = 9611 then Some (normalizeUserReport rt props)
               else if code = 555 then Some (normalizeDetection rt props)
               else Some (normalizeBulletin rt code props)))"

subsection \<open>\<^verbatim>\<open>FeedManager.handleP2pMessage\<close>\<close>

definition ALLOWED_CODES :: "real list" where
  "ALLOWED_CODES = [551, 552, 556, 561]"

text \<open>
  The filter: the frame is an object (or array) with a property \<^verbatim>\<open>code\<close> that is a number and
  not one of \<^verbatim>\<open>ALLOWED_CODES\<close>. An array has no property \<^verbatim>\<open>code\<close>.
\<close>

definition codeNotAllowed :: "json \<Rightarrow> bool" where
  "codeNotAllowed frame =
     (case frame of
        JObject props \<Rightarrow>
          (case map_of props ''code'' of
             Some (JNumber c) \<Rightarrow> c \<notin> set ALLOWED_CODES
           | other \<Rightarrow> False)
      | other \<Rightarrow> False)"

text \<open>The result is the event that the handler passes to \<^verbatim>\<open>onEvent\<close>, if it passes one.\<close>

definition handleP2pMessage :: "js_runtime \<Rightarrow> json \<Rightarrow> EventRecord option" where
  "handleP2pMessage rt frame =
     (if falsy frame then None
      else if codeNotAllowed frame then None
      else (case normalizeP2pEvent rt frame of
              Some event \<Rightarrow> Some event
            | None \<Rightarrow> None))"

section \<open>Concrete inputs\<close>

text \<open>Small concrete values on which the theorems below evaluate the model.\<close>

definition exampleEvent :: "string \<Rightarrow> string \<Rightarrow> EventRecord" where
  "exampleEvent eid t =
     \<lparr>eventId = eid, source = ''KMA'', eventType = ''information'', reportType = None,
      time = t, issueTime = None, receiveTime = t, receiveSource = ''KMA'',
      latitude = Some 35, longitude = Some 129, magnitude = Some 4, depth = Some 10,
      intensity = None, region = None, advisory = None, revision = None\<rparr>"

definition eventA :: EventRecord where
  "eventA = exampleEvent ''A'' ''2024-01-01T00:00:00.000Z''"

definition eventB :: EventRecord where
  "eventB = exampleEvent ''B'' ''2024-01-02T00:00:00.000Z''"

definition exampleHeartbeat :: "bool \<Rightarrow> string option \<Rightarrow> Heartbeat" where
  "exampleHeartbeat kma err =
     \<lparr>kmaConnection = kma, lastParseTime = ''2024-01-02T00:00:00.000Z'', lastEventTime = None,
      delayMs = 0, error = err, stats = None\<rparr>"

text \<open>
  A stand-in runtime for evaluation: the key is the private scalar of the JWK, a signature is
  the key followed by the message, an event is serialised to its id.
\<close>

definition exampleRuntime :: "(EventRecord, string) runtime" where
  "exampleRuntime = \<lparr>importKey = jwk_d, subtleSign = (\<lambda>k m. k @ m), stringify = eventId\<rparr>"

text \<open>The instant of \<open>exampleHeartbeat\<close>'s \<^verbatim>\<open>lastParseTime\<close>, and a date parser that knows it.\<close>

definition exampleParseDate :: "string \<Rightarrow> int option" where
  "exampleParseDate s = (if s = ''2024-01-02T00:00:00.000Z'' then Some 1704153600000 else None)"

text \<open>
  A Durable Object whose poller has just reported (authority reachable, no error) and whose
  two connectors have opened their sockets.
\<close>

definition reportingDeps :: "string CanariaSqlDurableObject" where
  "reportingDeps =
     newDurableObject
       \<lparr>ingestService := handleHeartbeat (exampleHeartbeat True None) newIngestService,
        feedStates := \<lparr>wolfx = state (onOpen 1704153600500 (connect False [] newConnector)),
                       p2p = state (onOpen 1704153600600 (connect False [] newConnector))\<rparr>\<rparr>"

text \<open>
  Rate-limit configurations with one rule for the endpoint \<^verbatim>\<open>GET /x\<close>: three requests a
  minute, and no request at all.
\<close>

definition ruleConfig :: "int \<Rightarrow> int \<Rightarrow> Config" where
  "ruleConfig m s =
     DEFAULT_CONFIG\<lparr>rateLimit :=
       \<lparr>enabled = True, limits = [''GET /x'' \<mapsto> \<lparr>maxRequests = m, windowSeconds = s\<rparr>]\<rparr>\<rparr>"

definition threePerMinute :: Config where
  "threePerMinute = ruleConfig 3 60"

definition nonePerMinute :: Config where
  "nonePerMinute = ruleConfig 0 60"

text \<open>
  Seven logged requests inside the minute from 1704153540 to 1704153600 (seconds), and the
  store that holds them.
\<close>

definition exampleLog :: "int \<Rightarrow> real \<Rightarrow> request_log" where
  "exampleLog t d =
     \<lparr>log_timestamp = t, log_endpoint = ''/v1/events'', log_method = ''GET'', log_status = 200,
      log_duration_ms = Some d, log_ip = ''1.2.3.4'', log_user_agent = ''curl''\<rparr>"

definition sevenRequests :: database where
  "sevenRequests =
     empty_database\<lparr>request_logs :=
       [exampleLog 1704153540 1, exampleLog 1704153545 2, exampleLog 1704153550 3,
        exampleLog 1704153555 4, exampleLog 1704153560 5, exampleLog 1704153570 6,
        exampleLog 1704153599 7]\<rparr>"

text \<open>
  A stand-in for the JavaScript runtime of the normalizers, right on the values the examples
  need: the clock reads 2024-01-02T00:00:01.000Z, one date is known, and the numbers 0, 551
  and 9611 print as their digits.
\<close>

definition exampleJs :: js_runtime where
  "exampleJs =
     \<lparr>currentIso = ''2024-01-02T00:00:01.000Z'', currentMillis = 1704153601000,
      dateToIso = (\<lambda>s. if s = ''2024-01-02T09:00:00+09:00''
                         then Some ''2024-01-02T00:00:00.000Z'' else None),
      numberToString = (\<lambda>n. if n = 0 then ''0'' else if n = 551 then ''551''
                              else if n = 9611 then ''9611'' else ''NaN''),
      anyToString = (\<lambda>v. ''[object Object]''),
      stringToNumber = (\<lambda>s. None),
      spacesToUnderscore = map (\<lambda>c. if c = CHR '' '' then CHR ''_'' else c)\<rparr>"

text \<open>Two frames of the P2P feed: an earthquake bulletin (551) and a user report (9611).\<close>

definition bulletinFrame :: json where
  "bulletinFrame =
     JObject [(''id'', JString ''65930b5e''), (''code'', JNumber 551),
              (''time'', JString ''2024/01/02 09:00:00'')]"

definition userReportFrame :: json where
  "userReportFrame =
     JObject [(''id'', JString ''6593f00d''), (''code'', JNumber 9611),
              (''time'', JString ''2024/01/02 09:00:00'')]"

section \<open>Auxiliary facts\<close>

lemma upt_0_Suc_shift: "[0..<Suc n] = 0 # map Suc [0..<n]"
  by (simp add: upt_conv_Cons map_Suc_upt)

section \<open>Reconnect backoff\<close>

lemma retryFails_timer:
  "reconnectTimer (retryFails f c) = Some (backoff c)"
  by (cases f)
     (simp_all add: retryFails_def reconnectTimerFires_def connect_def scheduleReconnect_def
        handleClose_def cleanupSocket_def Let_def split: option.splits)

lemma retryFails_backoff:
  "backoff (retryFails f c) = min (backoff c * 2) MAX_BACKOFF_MS"
  by (cases f)
     (simp_all add: retryFails_def reconnectTimerFires_def connect_def scheduleReconnect_def
        handleClose_def cleanupSocket_def Let_def split: option.splits)

lemma firstAttemptFails_timer:
  "reconnectTimer (firstAttemptFails f newConnector) = Some BASE_BACKOFF_MS"
  by (cases f)
     (simp_all add: firstAttemptFails_def start_def newConnector_def initialFeedState_def
        connect_def scheduleReconnect_def handleClose_def cleanupSocket_def Let_def split: option.splits)

lemma firstAttemptFails_backoff:
  "backoff (firstAttemptFails f newConnector) = min (BASE_BACKOFF_MS * 2) MAX_BACKOFF_MS"
  by (cases f)
     (simp_all add: firstAttemptFails_def start_def newConnector_def initialFeedState_def
        connect_def scheduleReconnect_def handleClose_def cleanupSocket_def Let_def split: option.splits)

text \<open>The capped doubling, unfolded: the \<open>k\<close>-th doubling of \<open>b\<close> capped at the maximum.\<close>

lemma capped_double:
  "0 < b \<Longrightarrow> min (min (b * 2 ^ k) MAX_BACKOFF_MS * 2) MAX_BACKOFF_MS = min (b * 2 ^ Suc k) MAX_BACKOFF_MS"
  for b :: int
  by (simp add: MAX_BACKOFF_MS_def min_def)

lemma consecutiveFailures_delays:
  "0 < b \<Longrightarrow> backoff c = min (b * 2 ^ k) MAX_BACKOFF_MS \<Longrightarrow>
     consecutiveFailures fs c =
       map (\<lambda>n. Some (min (b * 2 ^ (k + n)) MAX_BACKOFF_MS)) [0..<length fs]"
proof (induction fs arbitrary: c k)
  case Nil
  then show ?case by simp
next
  case (Cons f fs)
  have b': "backoff (retryFails f c) = min (b * 2 ^ Suc k) MAX_BACKOFF_MS"
    using Cons.prems by (simp only: retryFails_backoff capped_double)
  have tl: "consecutiveFailures fs (retryFails f c) =
      map (\<lambda>n. Some (min (b * 2 ^ (Suc k + n)) MAX_BACKOFF_MS)) [0..<length fs]"
    using Cons.IH [OF Cons.prems(1) b'] .
  have split: "[0..<length (f # fs)] = 0 # map Suc [0..<length fs]"
    by (simp only: list.size upt_0_Suc_shift add_Suc_right add_0_right One_nat_def)
  show ?case
    by (simp only: split consecutiveFailures.simps Let_def retryFails_timer tl Cons.prems(2))
       (simp add: comp_def)
qed

text \<open>
  C6. Starting from the base backoff, the reconnect delays armed by consecutive failed
  connection attempts are 2 s, 4 s, 8 s, 16 s, 32 s, 60 s, 60 s, ...: the \<open>n\<close>-th is
  \<open>min (2000 * 2 ^ n) 60000\<close> ms, each one \<open>min (previous * 2) 60000\<close>; and once a socket has
  opened, the next delay is 2 s again.
\<close>

theorem reconnect_delay_sequence:
  "reconnectDelays fs = map (\<lambda>n. Some (min (2000 * 2 ^ n) 60000)) [0..<length fs]
   \<and> map (\<lambda>n. min (2000 * 2 ^ n) (60000::int)) [0..<7]
       = [2000, 4000, 8000, 16000, 32000, 60000, 60000]
   \<and> reconnectTimer (retryFails f c) = Some (backoff c)
   \<and> backoff (retryFails f c) = min (backoff c * 2) 60000
   \<and> backoff (onOpen now c) = 2000
   \<and> reconnectTimer (handleClose later reason (onOpen now (reconnectTimerFires False err c)))
       = Some 2000"
proof (intro conjI)
  show "reconnectDelays fs = map (\<lambda>n. Some (min (2000 * 2 ^ n) 60000)) [0..<length fs]"
  proof (cases fs)
    case Nil
    then show ?thesis by simp
  next
    case (Cons f' fs')
    let ?c1 = "firstAttemptFails f' newConnector"
    have b1: "backoff ?c1 = min (BASE_BACKOFF_MS * 2 ^ 1) MAX_BACKOFF_MS"
      by (simp add: firstAttemptFails_backoff)
    have tl: "consecutiveFailures fs' ?c1 =
        map (\<lambda>n. Some (min (BASE_BACKOFF_MS * 2 ^ (1 + n)) MAX_BACKOFF_MS)) [0..<length fs']"
      by (rule consecutiveFailures_delays [OF _ b1]) (simp add: BASE_BACKOFF_MS_def)
    have split: "[0..<length (f' # fs')] = 0 # map Suc [0..<length fs']"
      by (simp only: list.size upt_0_Suc_shift add_Suc_right add_0_right One_nat_def)
    show ?thesis
      unfolding Cons split
      by (simp add: Let_def firstAttemptFails_timer tl comp_def BASE_BACKOFF_MS_def
            MAX_BACKOFF_MS_def)
  qed
  show "map (\<lambda>n. min (2000 * 2 ^ n) (60000::int)) [0..<7]
       = [2000, 4000, 8000, 16000, 32000, 60000, 60000]"
    by (simp add: upt_rec numeral_nat)
  show "reconnectTimer (retryFails f c) = Some (backoff c)"
    by (rule retryFails_timer)
  show "backoff (retryFails f c) = min (backoff c * 2) 60000"
    by (simp add: retryFails_backoff MAX_BACKOFF_MS_def)
  show "backoff (onOpen now c) = 2000"
    by (simp add: onOpen_def Let_def BASE_BACKOFF_MS_def)
  show "reconnectTimer (handleClose later reason (onOpen now (reconnectTimerFires False err c)))
       = Some 2000"
    by (simp add: handleClose_def onOpen_def reconnectTimerFires_def connect_def
          cleanupSocket_def scheduleReconnect_def Let_def BASE_BACKOFF_MS_def)
qed

section \<open>EventStore.insert\<close>

lemma insert_or_ignore_distinct:
  "distinct (map eventId (events db)) \<Longrightarrow>
     distinct (map eventId (events (sql_insert_or_ignore_event ev db)))"
  by (simp add: sql_insert_or_ignore_event_def)

lemma insert_or_ignore_extends:
  "\<exists>new. events (sql_insert_or_ignore_event ev db) = events db @ new"
  by (simp add: sql_insert_or_ignore_event_def)

lemma insert_loop_returns:
  "fst (EventStore_insert_loop evs n db) = n + length evs"
  by (induction evs arbitrary: n db) (simp_all add: SqliteAdapter_run_def)

lemma insert_loop_rows:
  "snd (EventStore_insert_loop evs n db) = fold sql_insert_or_ignore_event evs db"
  by (induction evs arbitrary: n db) (simp_all add: SqliteAdapter_run_def)

lemma fold_insert_distinct:
  "distinct (map eventId (events db)) \<Longrightarrow>
     distinct (map eventId (events (fold sql_insert_or_ignore_event evs db)))"
  by (induction evs arbitrary: db) (simp_all add: insert_or_ignore_distinct)

lemma fold_insert_extends:
  "\<exists>new. events (fold sql_insert_or_ignore_event evs db) = events db @ new"
proof (induction evs arbitrary: db)
  case Nil
  show ?case by simp
next
  case (Cons ev evs)
  obtain n1 where n1: "events (sql_insert_or_ignore_event ev db) = events db @ n1"
    using insert_or_ignore_extends by blast
  obtain n2 where "events (fold sql_insert_or_ignore_event evs (sql_insert_or_ignore_event ev db))
      = events (sql_insert_or_ignore_event ev db) @ n2"
    using Cons.IH by blast
  then show ?case by (simp add: n1)
qed

text \<open>
  What \<^verbatim>\<open>insert\<close> does to the table: every \<^verbatim>\<open>eventId\<close> keeps at most one row, and the rows
  that were there stay as they were, in front of the new ones.
\<close>

lemma EventStore_insert_rows:
  "snd (EventStore_insert evs db) = fold sql_insert_or_ignore_event evs db"
  by (simp add: EventStore_insert_def insert_loop_rows)

lemma EventStore_insert_distinct:
  "distinct (map eventId (events db)) \<Longrightarrow>
     distinct (map eventId (events (snd (EventStore_insert evs db))))"
  by (simp only: EventStore_insert_rows fold_insert_distinct)

lemma EventStore_insert_never_overwrites:
  "\<exists>new. events (snd (EventStore_insert evs db)) = events db @ new"
  by (simp only: EventStore_insert_rows fold_insert_extends)

text \<open>
  What it returns: behind the adapter every \<^verbatim>\<open>run\<close> reports \<^verbatim>\<open>changes: 1\<close>, so the count is the
  length of the batch, whether or not a row materialized.
\<close>

lemma EventStore_insert_returns_batch_length:
  "fst (EventStore_insert evs db) = length evs"
  by (simp add: EventStore_insert_def insert_loop_returns)

lemma tables_after_A_then_AB:
  "events (snd (EventStore_insert [eventA, eventB] (snd (EventStore_insert [eventA] empty_database))))
     = [eventA, eventB]"
  by (simp add: EventStore_insert_def SqliteAdapter_run_def sql_insert_or_ignore_event_def
        empty_database_def eventA_def eventB_def exampleEvent_def)

text \<open>
  C1. The dedup scenario on the code: after \<^verbatim>\<open>insert([A])\<close> and \<^verbatim>\<open>insert([A, B])\<close> on an empty
  store, the table holds one row for A and one for B, \<^verbatim>\<open>count()\<close> is 2 and \<^verbatim>\<open>latest()\<close> is B,
  the event with the greatest time; the returned counts are 1 and 2, although the second
  batch materialized one row only.
\<close>

theorem insert_dedup_scenario_counts:
  "fst (EventStore_insert [eventA] empty_database) = 1
   \<and> fst (EventStore_insert [eventA, eventB] (snd (EventStore_insert [eventA] empty_database))) = 2
   \<and> map eventId (events (snd (EventStore_insert [eventA, eventB]
         (snd (EventStore_insert [eventA] empty_database))))) = [''A'', ''B'']
   \<and> EventStore_count (snd (EventStore_insert [eventA, eventB]
         (snd (EventStore_insert [eventA] empty_database)))) = 2
   \<and> EventStore_latest (snd (EventStore_insert [eventA, eventB]
         (snd (EventStore_insert [eventA] empty_database)))) = Some eventB"
proof (intro conjI)
  let ?db = "snd (EventStore_insert [eventA, eventB] (snd (EventStore_insert [eventA] empty_database)))"
  show "fst (EventStore_insert [eventA] empty_database) = 1"
    by (simp add: EventStore_insert_returns_batch_length)
  show "fst (EventStore_insert [eventA, eventB] (snd (EventStore_insert [eventA] empty_database))) = 2"
    by (simp add: EventStore_insert_returns_batch_length)
  show "map eventId (events ?db) = [''A'', ''B'']"
    by (simp only: tables_after_A_then_AB) (simp add: eventA_def eventB_def exampleEvent_def)
  show "EventStore_count ?db = 2"
    by (simp add: EventStore_count_def tables_after_A_then_AB)
  show "EventStore_latest ?db = Some eventB"
    unfolding EventStore_latest_def SqliteAdapter_first_def sql_limit_def
      sql_order_by_time_desc_def tables_after_A_then_AB
    by (simp add: eventA_def eventB_def exampleEvent_def deserialize_def numeric_column_def)
qed

section \<open>IngestService.handleIncomingEvents\<close>

lemma Signer_sign_payload:
  "payload (fst (Signer_sign rt nowMs d key)) = stringify rt d"
  by (simp add: Signer_sign_def Let_def split: prod.splits)

lemma signAll_payloads:
  "map payload (fst (signAll rt nowMs evs key)) = map (stringify rt) evs"
proof (induction evs arbitrary: key)
  case Nil
  show ?case by simp
next
  case (Cons ev evs)
  obtain s1 k1 where a: "Signer_sign rt nowMs ev key = (s1, k1)"
    by (cases "Signer_sign rt nowMs ev key")
  obtain rest k2 where b: "signAll rt nowMs evs k1 = (rest, k2)"
    by (cases "signAll rt nowMs evs k1")
  have "payload s1 = stringify rt ev"
    using Signer_sign_payload [of rt nowMs ev key] a by simp
  moreover have "map payload rest = map (stringify rt) evs"
    using Cons.IH [of k1] b by simp
  ultimately show ?case by (simp add: a b)
qed

text \<open>
  A batch that is not empty always passes the gate \<^verbatim>\<open>inserted > 0\<close>, since \<^verbatim>\<open>insert\<close> returns
  the length of the batch: all its events are signed, in order, into one broadcast, the
  timestamp is set and one backup is scheduled.
\<close>

lemma handleIncomingEvents_nonempty:
  assumes "evs \<noteq> []"
  shows "broadcasts (handleIncomingEvents rt nowMs nowIso evs deps)
           = broadcasts deps @ [fst (signAll rt nowMs evs (signerKey deps))]"
    and "lastStoredAt (ingestService (handleIncomingEvents rt nowMs nowIso evs deps)) = Some nowIso"
    and "length (backups (handleIncomingEvents rt nowMs nowIso evs deps)) = Suc (length (backups deps))"
    and "store (handleIncomingEvents rt nowMs nowIso evs deps) = snd (EventStore_insert evs (store deps))"
proof -
  have pos: "fst (EventStore_insert evs (store deps)) > 0"
    using assms by (simp add: EventStore_insert_returns_batch_length)
  obtain n db1 where ins: "EventStore_insert evs (store deps) = (n, db1)"
    by (cases "EventStore_insert evs (store deps)")
  have n: "n > 0" using pos ins by simp
  obtain ss k1 where sg: "signAll rt nowMs evs (signerKey deps) = (ss, k1)"
    by (cases "signAll rt nowMs evs (signerKey deps)")
  show "broadcasts (handleIncomingEvents rt nowMs nowIso evs deps)
           = broadcasts deps @ [fst (signAll rt nowMs evs (signerKey deps))]"
    using assms n by (simp add: handleIncomingEvents_def ins sg Let_def)
  show "lastStoredAt (ingestService (handleIncomingEvents rt nowMs nowIso evs deps)) = Some nowIso"
    using assms n by (simp add: handleIncomingEvents_def ins sg Let_def)
  show "length (backups (handleIncomingEvents rt nowMs nowIso evs deps)) = Suc (length (backups deps))"
    using assms n by (simp add: handleIncomingEvents_def ins sg Let_def)
  show "store (handleIncomingEvents rt nowMs nowIso evs deps) = snd (EventStore_insert evs (store deps))"
    using assms n by (simp add: handleIncomingEvents_def ins sg Let_def)
qed

lemma handleIncomingEvents_empty:
  "handleIncomingEvents rt nowMs nowIso [] deps = deps"
  by (simp add: handleIncomingEvents_def)

lemma handleIncomingEvents_sync_flag:
  "needsKmaSync (ingestService (handleIncomingEvents rt nowMs nowIso evs deps))
     = needsKmaSync (ingestService deps)"
  by (simp add: handleIncomingEvents_def Let_def split: prod.splits)

lemma handleIncomingEvents_error_ring:
  "parserErrorHistory (ingestService (handleIncomingEvents rt nowMs nowIso evs deps))
     = parserErrorHistory (ingestService deps)"
  by (simp add: handleIncomingEvents_def Let_def split: prod.splits)

text \<open>
  C10. Event A is already persisted when the batch \<^verbatim>\<open>[A]\<close> arrives again: no event of the batch
  is new and no row is added, yet the batch is signed and broadcast a second time,
  \<^verbatim>\<open>lastStoredAt\<close> moves and a second backup is scheduled.
\<close>

theorem known_batch_is_broadcast_again:
  "events (store (handleIncomingEvents rt 2 ''t2'' [eventA]
              (handleIncomingEvents rt 1 ''t1'' [eventA] newDurableObject))) = [eventA]
   \<and> map (map payload) (broadcasts (handleIncomingEvents rt 2 ''t2'' [eventA]
              (handleIncomingEvents rt 1 ''t1'' [eventA] newDurableObject)))
       = [[stringify rt eventA], [stringify rt eventA]]
   \<and> lastStoredAt (ingestService (handleIncomingEvents rt 2 ''t2'' [eventA]
              (handleIncomingEvents rt 1 ''t1'' [eventA] newDurableObject))) = Some ''t2''
   \<and> length (backups (handleIncomingEvents rt 2 ''t2'' [eventA]
              (handleIncomingEvents rt 1 ''t1'' [eventA] newDurableObject))) = 2"
proof -
  let ?d1 = "handleIncomingEvents rt 1 ''t1'' [eventA] newDurableObject"
  let ?d2 = "handleIncomingEvents rt 2 ''t2'' [eventA] ?d1"
  have ne: "[eventA] \<noteq> []" by simp
  have s2: "events (store ?d2) = [eventA]"
    by (simp add: handleIncomingEvents_nonempty(4) [OF ne] EventStore_insert_rows
          sql_insert_or_ignore_event_def newDurableObject_def empty_database_def)
  have e0: "broadcasts (newDurableObject :: 'a CanariaSqlDurableObject) = []"
    by (simp add: newDurableObject_def)
  have b1: "broadcasts ?d1 = [] @ [fst (signAll rt 1 [eventA] (signerKey newDurableObject))]"
    by (simp only: handleIncomingEvents_nonempty(1) [OF ne] e0)
  have b2: "map (map payload) (broadcasts ?d2) = [[stringify rt eventA], [stringify rt eventA]]"
    by (simp only: handleIncomingEvents_nonempty(1) [OF ne, of rt 2] b1 map_append list.map
          signAll_payloads append.simps)
  have l2: "lastStoredAt (ingestService ?d2) = Some ''t2''"
    by (rule handleIncomingEvents_nonempty(2) [OF ne])
  have k2: "length (backups ?d2) = 2"
    by (simp add: handleIncomingEvents_nonempty(3) [OF ne] newDurableObject_def)
  show ?thesis using s2 b2 l2 k2 by simp
qed

section \<open>POST /v1/events: the heartbeat\<close>

lemma handleHeartbeat_clears_flag:
  "kmaConnection hb \<Longrightarrow> \<not> needsKmaSync (handleHeartbeat hb s)"
  by (simp add: handleHeartbeat_def Let_def split: option.splits)

lemma handleHeartbeat_flag_stays_down:
  "\<not> needsKmaSync s \<Longrightarrow> \<not> needsKmaSync (handleHeartbeat hb s)"
  by (simp add: handleHeartbeat_def Let_def split: option.splits)

text \<open>One call of \<^verbatim>\<open>handleHeartbeat\<close> puts one entry in front when the heartbeat has an error.\<close>

lemma handleHeartbeat_prepends_one:
  "error hb = Some e \<Longrightarrow> e \<noteq> [] \<Longrightarrow>
     parserErrorHistory (handleHeartbeat hb s)
       = take MAX_PARSER_ERRORS
           (\<lparr>errorTimestamp = lastParseTime hb, errorText = e\<rparr> # parserErrorHistory s)"
  by (simp add: handleHeartbeat_def Let_def)

lemma handleHeartbeat_ring_bound:
  "length (parserErrorHistory s) \<le> MAX_PARSER_ERRORS \<Longrightarrow>
     length (parserErrorHistory (handleHeartbeat hb s)) \<le> MAX_PARSER_ERRORS"
  by (simp add: handleHeartbeat_def Let_def split: option.splits)

text \<open>The bound of the ring survives a whole request.\<close>

lemma postEvents_ring_bound:
  "length (parserErrorHistory (ingestService deps)) \<le> MAX_PARSER_ERRORS \<Longrightarrow>
     length (parserErrorHistory (ingestService (snd (postEvents rt nowMs nowIso body deps))))
       \<le> MAX_PARSER_ERRORS"
  by (cases "heartbeat body")
     (simp_all add: postEvents_def passHeartbeat_def Let_def handleIncomingEvents_error_ring
        handleHeartbeat_ring_bound split: option.splits)

text \<open>
  The handler reads \<^verbatim>\<open>wasNeeded\<close> after the first \<^verbatim>\<open>handleHeartbeat\<close> has cleared the flag, so
  \<^verbatim>\<open>wasNeeded && hasKma\<close> never holds: every request is answered 204.
\<close>

lemma postEvents_always_204:
  "fst (postEvents rt nowMs nowIso body deps) = (204, NoBody)"
proof (cases "heartbeat body")
  case None
  then show ?thesis by (simp add: postEvents_def Let_def)
next
  case (Some hb)
  show ?thesis
  proof (cases "kmaConnection hb")
    case False
    then show ?thesis using Some by (simp add: postEvents_def Let_def)
  next
    case True
    have "\<not> needsKmaSync (ingestService (passHeartbeat body deps))"
      using Some True by (simp add: passHeartbeat_def handleHeartbeat_clears_flag)
    then show ?thesis
      using Some by (simp add: postEvents_def Let_def handleIncomingEvents_sync_flag
          split: option.splits)
  qed
qed

lemma postEvents_flag_stays_down:
  "\<not> needsKmaSync (ingestService deps) \<Longrightarrow>
     \<not> needsKmaSync (ingestService (snd (postEvents rt nowMs nowIso body deps)))"
  by (cases "heartbeat body")
     (simp_all add: postEvents_def passHeartbeat_def Let_def handleIncomingEvents_sync_flag
        handleHeartbeat_flag_stays_down split: option.splits)

text \<open>
  C3. On a fresh process (the flag is set), the first POST whose heartbeat reports the
  authority reachable is answered 204 with no body, not 200 \<^verbatim>\<open>{sync:true}\<close>; it clears the
  flag, and the second identical POST is answered 204 with the flag still cleared.
\<close>

theorem first_reachable_heartbeat_gets_204:
  "needsKmaSync (ingestService (newDurableObject :: string CanariaSqlDurableObject))
   \<and> fst (postEvents exampleRuntime 1704153601000 ''2024-01-02T00:00:01.000Z''
            \<lparr>heartbeat = Some (exampleHeartbeat True None), payloadEvents = None\<rparr>
            newDurableObject) = (204, NoBody)
   \<and> fst (postEventsAll exampleRuntime
            [(1704153601000, ''2024-01-02T00:00:01.000Z'',
              \<lparr>heartbeat = Some (exampleHeartbeat True None), payloadEvents = None\<rparr>),
             (1704153602000, ''2024-01-02T00:00:02.000Z'',
              \<lparr>heartbeat = Some (exampleHeartbeat True None), payloadEvents = None\<rparr>)]
            newDurableObject) = [(204, NoBody), (204, NoBody)]
   \<and> \<not> needsKmaSync (ingestService (snd (postEventsAll exampleRuntime
            [(1704153601000, ''2024-01-02T00:00:01.000Z'',
              \<lparr>heartbeat = Some (exampleHeartbeat True None), payloadEvents = None\<rparr>),
             (1704153602000, ''2024-01-02T00:00:02.000Z'',
              \<lparr>heartbeat = Some (exampleHeartbeat True None), payloadEvents = None\<rparr>)]
            newDurableObject)))"
  by (simp add: postEvents_def passHeartbeat_def handleHeartbeat_def Let_def
        newDurableObject_def newIngestService_def exampleHeartbeat_def)

text \<open>
  C9. On a fresh process, one POST whose heartbeat carries the error \<^verbatim>\<open>"timeout"\<close> leaves two
  entries in the parser error ring, both for that heartbeat: the handler passes the heartbeat
  to \<^verbatim>\<open>handleHeartbeat\<close> twice.
\<close>

theorem one_error_heartbeat_adds_two_entries:
  "parserErrorHistory (ingestService (newDurableObject :: string CanariaSqlDurableObject)) = []
   \<and> parserErrorHistory (ingestService (snd (postEvents exampleRuntime 1704153601000
         ''2024-01-02T00:00:01.000Z''
         \<lparr>heartbeat = Some (exampleHeartbeat False (Some ''timeout'')), payloadEvents = None\<rparr>
         newDurableObject)))
       = [\<lparr>errorTimestamp = ''2024-01-02T00:00:00.000Z'', errorText = ''timeout''\<rparr>,
          \<lparr>errorTimestamp = ''2024-01-02T00:00:00.000Z'', errorText = ''timeout''\<rparr>]"
  by (simp add: postEvents_def passHeartbeat_def handleHeartbeat_def Let_def
        newDurableObject_def newIngestService_def exampleHeartbeat_def MAX_PARSER_ERRORS_def)

section \<open>Health check\<close>

text \<open>\<^verbatim>\<open>checkHealth\<close> as a function of what it is handed.\<close>

lemma checkHealth_checks:
  "parser (checks (checkHealth cfg parseDate nowMs hb states down db))
     = js_less (getHeartbeatAge parseDate nowMs hb) (parserTimeoutSeconds (monitoring cfg))"
  "feeds (checks (checkHealth cfg parseDate nowMs hb states down db))
     = (status (wolfx states) = Connected \<or> status (p2p states) = Connected)"
  "database (checks (checkHealth cfg parseDate nowMs hb states down db)) = (\<not> down)"
  "healthy (checkHealth cfg parseDate nowMs hb states down db)
     = (parser (checks (checkHealth cfg parseDate nowMs hb states down db))
        \<and> feeds (checks (checkHealth cfg parseDate nowMs hb states down db))
        \<and> database (checks (checkHealth cfg parseDate nowMs hb states down db)))"
  by (simp_all add: checkHealth_def Let_def EventStore_count_call_def getParserTimeoutSeconds_def)

lemma getHealth_status:
  "fst (getHealth parseDate nowMs deps)
     = (if healthy (snd (getHealth parseDate nowMs deps)) then 200 else 503)"
  by (simp add: getHealth_def Let_def)

text \<open>The route hands \<^verbatim>\<open>checkHealth\<close> no heartbeat, so the parser check fails in every state.\<close>

lemma getHealth_always_503:
  "fst (getHealth parseDate nowMs deps) = 503"
  "\<not> parser (checks (snd (getHealth parseDate nowMs deps)))"
  by (simp_all add: getHealth_def Let_def checkHealth_def deps_parserHeartbeat_def
        getHeartbeatAge_def)

text \<open>
  C5. The poller reported one second ago (the timeout is 60 s), both connectors are connected
  and the store answers: \<^verbatim>\<open>checkHealth\<close>, handed the heartbeat the ingest service holds, finds
  the system healthy; \<^verbatim>\<open>GET /v1/health\<close> answers 503 with \<^verbatim>\<open>parser: false\<close>.
\<close>

theorem health_route_reports_fresh_parser_unhealthy:
  "getHeartbeatAge exampleParseDate 1704153601000 (parserHeartbeat (ingestService reportingDeps))
     = Finite 1
   \<and> healthy (checkHealth (config reportingDeps) exampleParseDate 1704153601000
        (parserHeartbeat (ingestService reportingDeps)) (feedStates reportingDeps)
        (engineDown reportingDeps) (store reportingDeps))
   \<and> getHealth exampleParseDate 1704153601000 reportingDeps
       = (503, \<lparr>healthy = False, checks = \<lparr>parser = False, feeds = True, database = True\<rparr>\<rparr>)"
  by (simp add: getHealth_def checkHealth_def Let_def deps_parserHeartbeat_def
        getHeartbeatAge_def reportingDeps_def newDurableObject_def handleHeartbeat_def
        newIngestService_def exampleHeartbeat_def exampleParseDate_def onOpen_def connect_def
        newConnector_def initialFeedState_def EventStore_count_call_def DEFAULT_CONFIG_def
        getParserTimeoutSeconds_def)

section \<open>RateLimiter.check\<close>

text \<open>One call, for an enabled limiter with a rule for the endpoint, at a time of window \<open>w\<close>.\<close>

lemma check_step:
  assumes en: "isRateLimitEnabled cfg" and rl: "getRateLimit cfg endpoint = Some rule"
    and win: "windowStart rule t = Some w"
  shows "fst (RateLimiter_check cfg t ip endpoint db)
           = \<lparr>allowed = (counterIn w (rateLimitKey ip endpoint) db < maxRequests rule),
              limit = maxRequests rule,
              remaining = max 0 (maxRequests rule - counterIn w (rateLimitKey ip endpoint) db - 1),
              resetAt = Some (w + windowSeconds rule)\<rparr>"
    and "snd (RateLimiter_check cfg t ip endpoint db)
           = (if counterIn w (rateLimitKey ip endpoint) db < maxRequests rule
              then db\<lparr>rate_limits := (rate_limits db)(rateLimitKey ip endpoint \<mapsto>
                     \<lparr>rl_count = counterIn w (rateLimitKey ip endpoint) db + 1, rl_window_start = Some w\<rparr>)\<rparr>
              else db)"
proof -
  have c: "(case SqliteAdapter_first (sql_select_rate_limit (rateLimitKey ip endpoint)) db of
              None \<Rightarrow> 0
            | Some r \<Rightarrow> (case rl_window_start r of None \<Rightarrow> 0
                          | Some w' \<Rightarrow> if Some w' = Some w then rl_count r else 0))
           = counterIn w (rateLimitKey ip endpoint) db"
    by (auto simp add: SqliteAdapter_first_def sql_select_rate_limit_def counterIn_def
          split: option.splits)
  show "fst (RateLimiter_check cfg t ip endpoint db)
           = \<lparr>allowed = (counterIn w (rateLimitKey ip endpoint) db < maxRequests rule),
              limit = maxRequests rule,
              remaining = max 0 (maxRequests rule - counterIn w (rateLimitKey ip endpoint) db - 1),
              resetAt = Some (w + windowSeconds rule)\<rparr>"
    using en by (simp add: RateLimiter_check_def rl win Let_def c)
  show "snd (RateLimiter_check cfg t ip endpoint db)
           = (if counterIn w (rateLimitKey ip endpoint) db < maxRequests rule
              then db\<lparr>rate_limits := (rate_limits db)(rateLimitKey ip endpoint \<mapsto>
                     \<lparr>rl_count = counterIn w (rateLimitKey ip endpoint) db + 1, rl_window_start = Some w\<rparr>)\<rparr>
              else db)"
    using en by (simp add: RateLimiter_check_def rl win Let_def c SqliteAdapter_run_def
        sql_replace_rate_limit_def)
qed

lemma check_denied_unchanged:
  "allowed (fst (RateLimiter_check cfg t ip endpoint db))
     \<or> snd (RateLimiter_check cfg t ip endpoint db) = db"
  by (simp add: RateLimiter_check_def Let_def split: option.splits)

lemma check_counter:
  assumes en: "isRateLimitEnabled cfg" and rl: "getRateLimit cfg endpoint = Some rule"
    and win: "windowStart rule t = Some w"
  shows "counterIn w (rateLimitKey ip endpoint) (snd (RateLimiter_check cfg t ip endpoint db))
           = (if counterIn w (rateLimitKey ip endpoint) db < maxRequests rule
              then counterIn w (rateLimitKey ip endpoint) db + 1
              else counterIn w (rateLimitKey ip endpoint) db)"
  by (simp add: check_step(2) [OF en rl win]) (simp add: counterIn_def)

lemma checkAll_run:
  assumes en: "isRateLimitEnabled cfg" and rl: "getRateLimit cfg endpoint = Some rule"
  shows "\<forall>t \<in> set ts. windowStart rule t = Some w \<Longrightarrow>
     map allowed (fst (checkAll cfg ip endpoint ts db))
       = map (\<lambda>i. counterIn w (rateLimitKey ip endpoint) db + int i < maxRequests rule) [0..<length ts]
     \<and> map remaining (fst (checkAll cfg ip endpoint ts db))
       = map (\<lambda>i. max 0 (maxRequests rule - (counterIn w (rateLimitKey ip endpoint) db + int i) - 1))
           [0..<length ts]
     \<and> counterIn w (rateLimitKey ip endpoint) (snd (checkAll cfg ip endpoint ts db))
       = max (counterIn w (rateLimitKey ip endpoint) db)
           (min (counterIn w (rateLimitKey ip endpoint) db + int (length ts)) (maxRequests rule))"
proof (induction ts arbitrary: db)
  case Nil
  show ?case by simp
next
  case (Cons t ts)
  let ?k = "rateLimitKey ip endpoint"
  let ?c = "counterIn w ?k db"
  let ?M = "maxRequests rule"
  have win: "windowStart rule t = Some w" using Cons.prems by simp
  have rest: "\<forall>t \<in> set ts. windowStart rule t = Some w" using Cons.prems by simp
  obtain res db1 where step: "RateLimiter_check cfg t ip endpoint db = (res, db1)"
    by (cases "RateLimiter_check cfg t ip endpoint db")
  obtain rs db2 where run: "checkAll cfg ip endpoint ts db1 = (rs, db2)"
    by (cases "checkAll cfg ip endpoint ts db1")
  have res: "allowed res = (?c < ?M)" "remaining res = max 0 (?M - ?c - 1)"
    using check_step(1) [OF en rl win, of ip db] step by simp_all
  have c1: "counterIn w ?k db1 = (if ?c < ?M then ?c + 1 else ?c)"
    using check_counter [OF en rl win, of ip db] step by simp
  note IH = Cons.IH [OF rest, of db1, unfolded run fst_conv snd_conv c1]
  have split: "[0..<length (t # ts)] = 0 # map Suc [0..<length ts]"
    by (simp only: list.size upt_0_Suc_shift add_Suc_right add_0_right One_nat_def)
  have a: "map allowed (res # rs) = map (\<lambda>i. ?c + int i < ?M) (0 # map Suc [0..<length ts])"
    using IH res by (auto simp add: comp_def)
  have b: "map remaining (res # rs)
      = map (\<lambda>i. max 0 (?M - (?c + int i) - 1)) (0 # map Suc [0..<length ts])"
    using IH res by (auto simp add: comp_def max_def)
  have c: "counterIn w ?k db2 = max ?c (min (?c + int (length (t # ts))) ?M)"
    using IH by (auto simp add: max_def min_def)
  show ?case
    unfolding split using a b c by (simp add: step run)
qed


lemma checkAll_Cons_snd:
  "snd (checkAll cfg ip endpoint (t # ts) db)
     = snd (checkAll cfg ip endpoint ts (snd (RateLimiter_check cfg t ip endpoint db)))"
  by (simp split: prod.splits)

lemma check_row_in_window:
  assumes en: "isRateLimitEnabled cfg" and rl: "getRateLimit cfg endpoint = Some rule"
    and win: "windowStart rule t = Some w"
    and row: "rate_limits db (rateLimitKey ip endpoint)
        = Some \<lparr>rl_count = counterIn w (rateLimitKey ip endpoint) db, rl_window_start = Some w\<rparr>"
  shows "rate_limits (snd (RateLimiter_check cfg t ip endpoint db)) (rateLimitKey ip endpoint)
      = Some \<lparr>rl_count = counterIn w (rateLimitKey ip endpoint)
                   (snd (RateLimiter_check cfg t ip endpoint db)),
               rl_window_start = Some w\<rparr>"
  using row by (simp add: check_step(2) [OF en rl win]) (simp add: counterIn_def)

lemma checkAll_row_in_window:
  assumes en: "isRateLimitEnabled cfg" and rl: "getRateLimit cfg endpoint = Some rule"
  shows "\<forall>t \<in> set ts. windowStart rule t = Some w \<Longrightarrow>
     rate_limits db (rateLimitKey ip endpoint)
        = Some \<lparr>rl_count = counterIn w (rateLimitKey ip endpoint) db, rl_window_start = Some w\<rparr> \<Longrightarrow>
     rate_limits (snd (checkAll cfg ip endpoint ts db)) (rateLimitKey ip endpoint)
        = Some \<lparr>rl_count = counterIn w (rateLimitKey ip endpoint)
                     (snd (checkAll cfg ip endpoint ts db)),
                 rl_window_start = Some w\<rparr>"
proof (induction ts arbitrary: db)
  case Nil
  then show ?case by simp
next
  case (Cons t ts)
  have win: "windowStart rule t = Some w" using Cons.prems(1) by simp
  have rest: "\<forall>t \<in> set ts. windowStart rule t = Some w" using Cons.prems(1) by simp
  show ?case
    unfolding checkAll_Cons_snd
    by (rule Cons.IH [OF rest check_row_in_window [OF en rl win Cons.prems(2)]])
qed

lemma newWindow_counter: "newWindow w k db \<Longrightarrow> counterIn w k db = 0"
  by (simp add: newWindow_def counterIn_def split: option.splits)

lemma checkAll_all_denied:
  assumes en: "isRateLimitEnabled cfg" and rl: "getRateLimit cfg endpoint = Some rule"
  shows "\<forall>t \<in> set ts. windowStart rule t = Some w \<Longrightarrow>
     maxRequests rule \<le> counterIn w (rateLimitKey ip endpoint) db \<Longrightarrow>
     snd (checkAll cfg ip endpoint ts db) = db"
proof (induction ts)
  case Nil
  show ?case by simp
next
  case (Cons t ts)
  have win: "windowStart rule t = Some w" using Cons.prems(1) by simp
  have "snd (RateLimiter_check cfg t ip endpoint db) = db"
    using Cons.prems(2) by (simp add: check_step(2) [OF en rl win])
  then show ?case
    unfolding checkAll_Cons_snd using Cons by simp
qed

text \<open>
  C2, as the code has it. For an enabled limiter with a rule for the endpoint, take any run of
  calls for one client whose times all fall into the window starting at \<open>w\<close>, on a store
  whose row for the key is absent or of another window. Then the \<open>(k+1)\<close>-th call is allowed
  exactly when \<open>k < maxRequests\<close> and reports \<open>remaining = max 0 (maxRequests - k - 1)\<close>: with
  \<open>maxRequests \<ge> 1\<close> the first call of the window is allowed with \<open>maxRequests - 1\<close> remaining,
  and the stored row is the window's with the counter at the number of allowed calls (1 after
  the first, never more than \<open>maxRequests\<close>); with \<open>maxRequests \<le> 0\<close> every call is denied and
  the store is untouched. In any state at all, a call that is not allowed leaves the store as
  it was.
\<close>

theorem rate_limit_fixed_window:
  assumes en: "isRateLimitEnabled cfg" and rl: "getRateLimit cfg endpoint = Some rule"
    and win: "\<forall>t \<in> set ts. windowStart rule t = Some w"
    and new: "newWindow w (rateLimitKey ip endpoint) db"
  shows "map allowed (fst (checkAll cfg ip endpoint ts db))
           = map (\<lambda>k. int k < maxRequests rule) [0..<length ts]
     \<and> map remaining (fst (checkAll cfg ip endpoint ts db))
           = map (\<lambda>k. max 0 (maxRequests rule - int k - 1)) [0..<length ts]
     \<and> (if ts = [] \<or> maxRequests rule \<le> 0
         then snd (checkAll cfg ip endpoint ts db) = db
         else rate_limits (snd (checkAll cfg ip endpoint ts db)) (rateLimitKey ip endpoint)
                = Some \<lparr>rl_count = min (int (length ts)) (maxRequests rule),
                         rl_window_start = Some w\<rparr>)
     \<and> (allowed (fst (RateLimiter_check cfg t' ip' endpoint' db'))
          \<or> snd (RateLimiter_check cfg t' ip' endpoint' db') = db')"
proof (intro conjI)
  let ?k = "rateLimitKey ip endpoint"
  have c0: "counterIn w ?k db = 0" using new by (rule newWindow_counter)
  note run = checkAll_run [OF en rl win, of ip db, unfolded c0]
  show "map allowed (fst (checkAll cfg ip endpoint ts db))
           = map (\<lambda>k. int k < maxRequests rule) [0..<length ts]"
    using run by simp
  show "map remaining (fst (checkAll cfg ip endpoint ts db))
           = map (\<lambda>k. max 0 (maxRequests rule - int k - 1)) [0..<length ts]"
    using run by simp
  show "allowed (fst (RateLimiter_check cfg t' ip' endpoint' db'))
          \<or> snd (RateLimiter_check cfg t' ip' endpoint' db') = db'"
    by (rule check_denied_unchanged)
  show "if ts = [] \<or> maxRequests rule \<le> 0
         then snd (checkAll cfg ip endpoint ts db) = db
         else rate_limits (snd (checkAll cfg ip endpoint ts db)) ?k
                = Some \<lparr>rl_count = min (int (length ts)) (maxRequests rule),
                         rl_window_start = Some w\<rparr>"
  proof (cases "ts = [] \<or> maxRequests rule \<le> 0")
    case True
    have "snd (checkAll cfg ip endpoint ts db) = db"
    proof (cases "ts = []")
      case True
      then show ?thesis by simp
    next
      case False
      with True have "maxRequests rule \<le> counterIn w ?k db" by (simp add: c0)
      then show ?thesis by (rule checkAll_all_denied [OF en rl win])
    qed
    with True show ?thesis by simp
  next
    case False
    then obtain t rest where ts: "ts = t # rest" and pos: "0 < maxRequests rule"
      by (cases ts) auto
    have wt: "windowStart rule t = Some w" and wrest: "\<forall>t \<in> set rest. windowStart rule t = Some w"
      using win ts by simp_all
    obtain res db1 where step: "RateLimiter_check cfg t ip endpoint db = (res, db1)"
      by (cases "RateLimiter_check cfg t ip endpoint db")
    have db1: "db1 = db\<lparr>rate_limits := (rate_limits db)(?k \<mapsto>
                     \<lparr>rl_count = 1, rl_window_start = Some w\<rparr>)\<rparr>"
      using check_step(2) [OF en rl wt, of ip db] step pos by (simp add: c0)
    have row1: "rate_limits db1 ?k
        = Some \<lparr>rl_count = counterIn w ?k db1, rl_window_start = Some w\<rparr>"
      by (simp add: db1 counterIn_def)
    have "rate_limits (snd (checkAll cfg ip endpoint rest db1)) ?k
        = Some \<lparr>rl_count = counterIn w ?k (snd (checkAll cfg ip endpoint rest db1)),
                 rl_window_start = Some w\<rparr>"
      by (rule checkAll_row_in_window [OF en rl wrest row1])
    moreover have "snd (checkAll cfg ip endpoint ts db) = snd (checkAll cfg ip endpoint rest db1)"
      unfolding ts checkAll_Cons_snd by (simp add: step)
    moreover have "counterIn w ?k (snd (checkAll cfg ip endpoint ts db))
        = min (int (length ts)) (maxRequests rule)"
      using run pos by (simp add: max_def min_def)
    ultimately show ?thesis using False by simp
  qed
qed

theorem rate_limit_fixed_window_witness:
  "isRateLimitEnabled threePerMinute
   \<and> getRateLimit threePerMinute ''GET /x'' = Some \<lparr>maxRequests = 3, windowSeconds = 60\<rparr>
   \<and> windowStart \<lparr>maxRequests = 3, windowSeconds = 60\<rparr> 1704153601000 = Some 1704153600
   \<and> windowStart \<lparr>maxRequests = 3, windowSeconds = 60\<rparr> 1704153602000 = Some 1704153600
   \<and> windowStart \<lparr>maxRequests = 3, windowSeconds = 60\<rparr> 1704153603000 = Some 1704153600
   \<and> windowStart \<lparr>maxRequests = 3, windowSeconds = 60\<rparr> 1704153604000 = Some 1704153600
   \<and> newWindow 1704153600 (rateLimitKey ''1.2.3.4'' ''GET /x'') empty_database
   \<and> map allowed (fst (checkAll threePerMinute ''1.2.3.4'' ''GET /x''
       [1704153601000, 1704153602000, 1704153603000, 1704153604000] empty_database))
     = [True, True, True, False]
   \<and> map remaining (fst (checkAll threePerMinute ''1.2.3.4'' ''GET /x''
       [1704153601000, 1704153602000, 1704153603000, 1704153604000] empty_database))
     = [2, 1, 0, 0]
   \<and> rate_limits (snd (checkAll threePerMinute ''1.2.3.4'' ''GET /x''
       [1704153601000, 1704153602000, 1704153603000, 1704153604000] empty_database))
       ''1.2.3.4:GET /x''
     = Some \<lparr>rl_count = 3, rl_window_start = Some 1704153600\<rparr>"
proof -
  have en: "isRateLimitEnabled threePerMinute"
    by (simp add: isRateLimitEnabled_def threePerMinute_def ruleConfig_def)
  have rl: "getRateLimit threePerMinute ''GET /x'' = Some \<lparr>maxRequests = 3, windowSeconds = 60\<rparr>"
    by (simp add: getRateLimit_def threePerMinute_def ruleConfig_def)
  have win: "\<forall>t \<in> set [1704153601000, 1704153602000, 1704153603000, 1704153604000].
      windowStart \<lparr>maxRequests = 3, windowSeconds = 60\<rparr> t = Some 1704153600"
    by (simp add: windowStart_def js_rem_def js_mod_def Let_def)
  have new: "newWindow 1704153600 (rateLimitKey ''1.2.3.4'' ''GET /x'') empty_database"
    by (simp add: newWindow_def empty_database_def)
  have upt: "[0..<4] = [0, 1, 2, 3]"
    by (simp add: upt_rec numeral_nat)
  have run: "map allowed (fst (checkAll threePerMinute ''1.2.3.4'' ''GET /x''
       [1704153601000, 1704153602000, 1704153603000, 1704153604000] empty_database))
     = [True, True, True, False]
   \<and> map remaining (fst (checkAll threePerMinute ''1.2.3.4'' ''GET /x''
       [1704153601000, 1704153602000, 1704153603000, 1704153604000] empty_database))
     = [2, 1, 0, 0]
   \<and> rate_limits (snd (checkAll threePerMinute ''1.2.3.4'' ''GET /x''
       [1704153601000, 1704153602000, 1704153603000, 1704153604000] empty_database))
       ''1.2.3.4:GET /x''
     = Some \<lparr>rl_count = 3, rl_window_start = Some 1704153600\<rparr>"
    using rate_limit_fixed_window [OF en rl win new, of 0 "[]" "[]" empty_database]
    by (simp add: upt rateLimitKey_def)
  show ?thesis
    using en rl win new run by simp
qed

text \<open>
  With the rule \<^verbatim>\<open>{maxRequests: 0, windowSeconds: 60}\<close>, the very first call of a window is
  not allowed (and stores nothing).
\<close>

theorem first_call_denied_under_zero_limit:
  "isRateLimitEnabled nonePerMinute
   \<and> getRateLimit nonePerMinute ''GET /x'' = Some \<lparr>maxRequests = 0, windowSeconds = 60\<rparr>
   \<and> rate_limits empty_database (rateLimitKey ''1.2.3.4'' ''GET /x'') = None
   \<and> \<not> allowed (fst (RateLimiter_check nonePerMinute 1704153601000 ''1.2.3.4'' ''GET /x''
            empty_database))
   \<and> snd (RateLimiter_check nonePerMinute 1704153601000 ''1.2.3.4'' ''GET /x'' empty_database)
       = empty_database"
  by (simp add: RateLimiter_check_def isRateLimitEnabled_def getRateLimit_def nonePerMinute_def
        ruleConfig_def Let_def SqliteAdapter_first_def sql_select_rate_limit_def
        empty_database_def)

section \<open>MetricsCollector.performRollup\<close>

lemma map_add_twice: "(m ++ u) ++ u = m ++ u"
  by (simp add: map_add_def fun_eq_iff split: option.splits)

lemma rollupRow_logs: "request_logs (rollupRow w i row db) = request_logs db"
  by (simp add: rollupRow_def Let_def SqliteAdapter_run_def sql_replace_rollup_def
        split: option.splits)

lemma rollupRow_upserts:
  "metrics_rollup (rollupRow w i row db)
     = metrics_rollup db ++ metrics_rollup (rollupRow w i row empty_database)"
  by (simp add: rollupRow_def Let_def SqliteAdapter_run_def sql_replace_rollup_def
        empty_database_def map_add_def fun_eq_iff split: option.splits)

lemma fold_rollupRow_logs:
  "request_logs (fold (rollupRow w i) rows db) = request_logs db"
  by (induction rows arbitrary: db) (simp_all add: rollupRow_logs)

lemma fold_rollupRow_upserts:
  "metrics_rollup (fold (rollupRow w i) rows db)
     = metrics_rollup db ++ metrics_rollup (fold (rollupRow w i) rows empty_database)"
proof (induction rows arbitrary: db)
  case Nil
  show ?case by (simp add: empty_database_def)
next
  case (Cons row rows)
  have "metrics_rollup (fold (rollupRow w i) (row # rows) db)
      = metrics_rollup (rollupRow w i row db)
          ++ metrics_rollup (fold (rollupRow w i) rows empty_database)"
    using Cons.IH [of "rollupRow w i row db"] by simp
  also have "\<dots> = metrics_rollup db ++ (metrics_rollup (rollupRow w i row empty_database)
          ++ metrics_rollup (fold (rollupRow w i) rows empty_database))"
    by (simp only: rollupRow_upserts [of w i row db] map_add_assoc)
  also have "metrics_rollup (rollupRow w i row empty_database)
          ++ metrics_rollup (fold (rollupRow w i) rows empty_database)
      = metrics_rollup (fold (rollupRow w i) (row # rows) empty_database)"
    using Cons.IH [of "rollupRow w i row empty_database"] by simp
  finally show ?case .
qed

lemma rollup_query_logs:
  "request_logs db2 = request_logs db1 \<Longrightarrow>
     sql_rollup_query g a b db2 = sql_rollup_query g a b db1"
  by (simp add: sql_rollup_query_def)

text \<open>
  C7. \<^verbatim>\<open>performRollup\<close> is idempotent over a fixed window: after a first call at \<open>t1\<close>, a second
  call at a time \<open>t2\<close> of the same \<^verbatim>\<open>currentWindow\<close>, on a store with the same \<^verbatim>\<open>request_logs\<close>
  and the \<^verbatim>\<open>metrics_rollup\<close> rows the first call left, leaves \<^verbatim>\<open>metrics_rollup\<close> exactly as the
  first call did: every row, those of \<^verbatim>\<open>requests_total\<close> and \<^verbatim>\<open>request_duration_avg\<close> among them,
  has the same key, value and count. (\<^verbatim>\<open>performRollup\<close> itself does not touch \<^verbatim>\<open>request_logs\<close>.)
  This holds for every order in which the engine hands out the groups.
\<close>

theorem performRollup_idempotent:
  assumes win: "currentWindow cfg t2 = currentWindow cfg t1"
    and logs: "request_logs db2 = request_logs db"
    and rows: "metrics_rollup db2 = metrics_rollup (snd (performRollup groupOrder cfg t1 (m, db)))"
  shows "metrics_rollup (snd (performRollup groupOrder cfg t2 (m2, db2)))
           = metrics_rollup (snd (performRollup groupOrder cfg t1 (m, db)))
     \<and> request_logs (snd (performRollup groupOrder cfg t1 (m, db))) = request_logs db"
proof -
  let ?i = "getRollupIntervalSeconds cfg"
  let ?w = "currentWindow cfg t1 - ?i"
  let ?rows = "sql_rollup_query groupOrder ?w (currentWindow cfg t1) db"
  let ?E = "metrics_rollup (fold (rollupRow ?w ?i) ?rows empty_database)"
  have first: "snd (performRollup groupOrder cfg t1 (m, db)) = fold (rollupRow ?w ?i) ?rows db"
    by (simp add: performRollup_def Let_def SqliteAdapter_all_def)
  have q: "sql_rollup_query groupOrder ?w (currentWindow cfg t1) db2 = ?rows"
    using logs by (rule rollup_query_logs)
  have second: "snd (performRollup groupOrder cfg t2 (m2, db2)) = fold (rollupRow ?w ?i) ?rows db2"
    by (simp add: performRollup_def Let_def SqliteAdapter_all_def win q)
  have "metrics_rollup (fold (rollupRow ?w ?i) ?rows db2) = metrics_rollup db2 ++ ?E"
    by (rule fold_rollupRow_upserts)
  also have "\<dots> = (metrics_rollup db ++ ?E) ++ ?E"
    by (simp only: rows first fold_rollupRow_upserts [of ?w ?i ?rows db])
  also have "\<dots> = metrics_rollup db ++ ?E"
    by (rule map_add_twice)
  also have "\<dots> = metrics_rollup (fold (rollupRow ?w ?i) ?rows db)"
    by (rule fold_rollupRow_upserts [symmetric])
  finally show ?thesis
    by (simp add: first second fold_rollupRow_logs)
qed

theorem performRollup_idempotent_witness:
  "currentWindow DEFAULT_CONFIG 1704153630000 = currentWindow DEFAULT_CONFIG 1704153601000
   \<and> request_logs (snd (performRollup id DEFAULT_CONFIG 1704153601000
            (\<lparr>lastRollup = 0, lastCleanup = 0\<rparr>, sevenRequests))) = request_logs sevenRequests
   \<and> metrics_rollup (snd (performRollup id DEFAULT_CONFIG 1704153630000
         (performRollup id DEFAULT_CONFIG 1704153601000
            (\<lparr>lastRollup = 0, lastCleanup = 0\<rparr>, sevenRequests))))
       = metrics_rollup (snd (performRollup id DEFAULT_CONFIG 1704153601000
            (\<lparr>lastRollup = 0, lastCleanup = 0\<rparr>, sevenRequests)))
   \<and> metrics_rollup (snd (performRollup id DEFAULT_CONFIG 1704153630000
         (performRollup id DEFAULT_CONFIG 1704153601000
            (\<lparr>lastRollup = 0, lastCleanup = 0\<rparr>, sevenRequests))))
         (1704153540, 60, ''requests_total'', requestLabels ''/v1/events'' 200)
       = Some \<lparr>rollup_value = 7, rollup_count = 1\<rparr>
   \<and> metrics_rollup (snd (performRollup id DEFAULT_CONFIG 1704153630000
         (performRollup id DEFAULT_CONFIG 1704153601000
            (\<lparr>lastRollup = 0, lastCleanup = 0\<rparr>, sevenRequests))))
         (1704153540, 60, ''request_duration_avg'', latencyLabels ''/v1/events'')
       = Some \<lparr>rollup_value = 4, rollup_count = 7\<rparr>"
proof -
  let ?m = "\<lparr>lastRollup = 0, lastCleanup = 0\<rparr>"
  let ?st1 = "performRollup id DEFAULT_CONFIG 1704153601000 (?m, sevenRequests)"
  have win: "currentWindow DEFAULT_CONFIG 1704153630000
      = currentWindow DEFAULT_CONFIG 1704153601000"
    by (simp add: currentWindow_def Let_def js_mod_def getRollupIntervalSeconds_def
          getRollupIntervalMs_def DEFAULT_CONFIG_def)
  have groups: "sql_rollup_query id 1704153540 1704153600 sevenRequests
      = [\<lparr>group_endpoint = ''/v1/events'', group_status = 200, group_count = 7,
           group_avg_duration = Some 4\<rparr>]"
    by (simp add: sql_rollup_query_def sevenRequests_def exampleLog_def empty_database_def
          Let_def sql_avg_def)
  have first: "metrics_rollup (snd ?st1)
      = [(1704153540, 60, ''requests_total'', requestLabels ''/v1/events'' 200)
           \<mapsto> \<lparr>rollup_value = 7, rollup_count = 1\<rparr>,
         (1704153540, 60, ''request_duration_avg'', latencyLabels ''/v1/events'')
           \<mapsto> \<lparr>rollup_value = 4, rollup_count = 7\<rparr>]"
    by (simp add: performRollup_def Let_def SqliteAdapter_all_def currentWindow_def js_mod_def
          getRollupIntervalSeconds_def getRollupIntervalMs_def DEFAULT_CONFIG_def groups
          rollupRow_def SqliteAdapter_run_def sql_replace_rollup_def)
       (simp add: sevenRequests_def empty_database_def)
  have logs: "request_logs (snd ?st1) = request_logs sevenRequests"
    by (simp add: performRollup_def Let_def fold_rollupRow_logs)
  have twice: "metrics_rollup (snd (performRollup id DEFAULT_CONFIG 1704153630000 ?st1))
      = metrics_rollup (snd ?st1)"
    using performRollup_idempotent [OF win logs refl, of "fst ?st1"] by simp
  show ?thesis
    unfolding twice using win logs by (simp add: first)
qed

section \<open>The allow-list of the P2P feed\<close>

lemma normalizeTime_example:
  "normalizeTime exampleJs (Some ''2024/01/02 09:00:00'') = ''2024-01-02T00:00:00.000Z''"
  by (simp add: normalizeTime_def exampleJs_def endsWithZ_def Let_def)

text \<open>
  C4, as the code has it. For every frame that is an object with a numeric \<^verbatim>\<open>code\<close>: when the
  code is one of 551, 552, 556, 561, the handler passes on exactly what \<^verbatim>\<open>normalizeP2pEvent\<close>
  returns (the event when normalization succeeds, nothing when it fails); for every other
  code, 9611 included, it passes on nothing.
\<close>

theorem p2p_allow_list:
  assumes "map_of props ''code'' = Some (JNumber c)"
  shows "handleP2pMessage rt (JObject props)
           = (if c \<in> {551, 552, 556, 561} then normalizeP2pEvent rt (JObject props) else None)"
  using assms
  by (simp add: handleP2pMessage_def codeNotAllowed_def ALLOWED_CODES_def split: option.splits)

theorem p2p_allow_list_witness:
  "map_of [(''id'', JString ''65930b5e''), (''code'', JNumber 551),
           (''time'', JString ''2024/01/02 09:00:00'')] ''code'' = Some (JNumber 551)
   \<and> handleP2pMessage exampleJs bulletinFrame
       = Some \<lparr>eventId = ''65930b5e'', source = ''P2PQUAKE'', eventType = ''information'',
               reportType = Some (ReportNumber 551), time = ''2024-01-02T00:00:00.000Z'',
               issueTime = None, receiveTime = ''2024-01-02T00:00:01.000Z'',
               receiveSource = ''P2P'', latitude = None, longitude = None, magnitude = None,
               depth = None, intensity = None, region = None, advisory = None,
               revision = None\<rparr>"
proof -
  have code: "map_of [(''id'', JString ''65930b5e''), (''code'', JNumber 551),
           (''time'', JString ''2024/01/02 09:00:00'')] ''code'' = Some (JNumber 551)"
    by simp
  have schema: "P2PSchema bulletinFrame
      = Some [(''id'', JString ''65930b5e''), (''code'', JNumber 551),
              (''time'', JString ''2024/01/02 09:00:00'')]"
    by (simp add: P2PSchema_def bulletinFrame_def optionalString_def optionalNumber_def
          optionalObject_def areasSchema_def)
  have norm: "normalizeP2pEvent exampleJs bulletinFrame
       = Some \<lparr>eventId = ''65930b5e'', source = ''P2PQUAKE'', eventType = ''information'',
               reportType = Some (ReportNumber 551), time = ''2024-01-02T00:00:00.000Z'',
               issueTime = None, receiveTime = ''2024-01-02T00:00:01.000Z'',
               receiveSource = ''P2P'', latitude = None, longitude = None, magnitude = None,
               depth = None, intensity = None, region = None, advisory = None,
               revision = None\<rparr>"
    unfolding normalizeP2pEvent_def schema
    by (simp add: numberProp_def normalizeBulletin_def Let_def objectProp_def stringProp_def
          optionalStringProp_def orElse_def orNull_def numeric_def normalizeTime_example)
       (simp add: exampleJs_def)
  show ?thesis
    using p2p_allow_list [OF code, of exampleJs] code
    by (simp add: norm bulletinFrame_def [symmetric])
qed

text \<open>
  A user report, code 9611: \<^verbatim>\<open>normalizeP2pEvent\<close> succeeds on the frame, and the handler passes
  nothing on.
\<close>

theorem user_report_frame_is_dropped:
  "normalizeP2pEvent exampleJs userReportFrame
       = Some \<lparr>eventId = ''6593f00d'', source = ''P2PQUAKE'', eventType = ''UserReport'',
               reportType = Some (ReportNumber 9611), time = ''2024-01-02T00:00:00.000Z'',
               issueTime = Some ''2024-01-02T00:00:00.000Z'',
               receiveTime = ''2024-01-02T00:00:01.000Z'', receiveSource = ''P2P'',
               latitude = None, longitude = None, magnitude = None, depth = None,
               intensity = None, region = Some ''User Reports: 0'', advisory = None,
               revision = Some ''final''\<rparr>
   \<and> handleP2pMessage exampleJs userReportFrame = None"
proof
  have schema: "P2PSchema userReportFrame
      = Some [(''id'', JString ''6593f00d''), (''code'', JNumber 9611),
              (''time'', JString ''2024/01/02 09:00:00'')]"
    by (simp add: P2PSchema_def userReportFrame_def optionalString_def optionalNumber_def
          optionalObject_def areasSchema_def)
  show "normalizeP2pEvent exampleJs userReportFrame
       = Some \<lparr>eventId = ''6593f00d'', source = ''P2PQUAKE'', eventType = ''UserReport'',
               reportType = Some (ReportNumber 9611), time = ''2024-01-02T00:00:00.000Z'',
               issueTime = Some ''2024-01-02T00:00:00.000Z'',
               receiveTime = ''2024-01-02T00:00:01.000Z'', receiveSource = ''P2P'',
               latitude = None, longitude = None, magnitude = None, depth = None,
               intensity = None, region = Some ''User Reports: 0'', advisory = None,
               revision = Some ''final''\<rparr>"
    unfolding normalizeP2pEvent_def schema
    by (simp add: numberProp_def normalizeUserReport_def Let_def objectProp_def stringProp_def
          optionalStringProp_def orElse_def orNull_def normalizeTime_example)
       (simp add: exampleJs_def)
  show "handleP2pMessage exampleJs userReportFrame = None"
    by (simp add: handleP2pMessage_def userReportFrame_def codeNotAllowed_def ALLOWED_CODES_def)
qed

section \<open>Signer.sign\<close>

lemma btoa_examples:
  "btoa ''Man'' = ''TWFu''" "btoa ''Ma'' = ''TWE=''" "btoa ''M'' = ''TQ==''"
  by (simp_all add: base64_digit_def base64_alphabet_def Let_def)

lemma Signer_key_after:
  "snd (Signer_sign rt nowMs x key)
     = Some (case key of None \<Rightarrow> importKey rt PRIVATE_KEY_JWK | Some k \<Rightarrow> k)"
  by (simp add: Signer_sign_def Signer_getPrivateKey_def Let_def split: option.splits)

lemma Signer_sign_result:
  "fst (Signer_sign rt nowMs x key)
     = \<lparr>payload = stringify rt x,
        signature = btoa (subtleSign rt (case key of None \<Rightarrow> importKey rt PRIVATE_KEY_JWK
                                                   | Some k \<Rightarrow> k) (stringify rt x)),
        timestamp = nowMs\<rparr>"
  by (simp add: Signer_sign_def Signer_getPrivateKey_def Let_def TextEncoder_encode_def
        split: option.splits)

text \<open>
  C8. Two calls \<^verbatim>\<open>sign(x)\<close> of one signer, at the times \<open>t1\<close> and \<open>t2\<close>: both payloads are the
  serialization of \<open>x\<close>, the two base64 signatures are identical, and each result carries the
  time of its own call as the timestamp. From the initial state the signature is
  \<open>btoa\<close> of the Ed25519 signature of the payload under the key imported from the JWK.
\<close>

theorem sign_is_deterministic:
  "payload (fst (Signer_sign rt t1 x key)) = stringify rt x
   \<and> payload (fst (Signer_sign rt t2 x (snd (Signer_sign rt t1 x key)))) = stringify rt x
   \<and> signature (fst (Signer_sign rt t2 x (snd (Signer_sign rt t1 x key))))
       = signature (fst (Signer_sign rt t1 x key))
   \<and> timestamp (fst (Signer_sign rt t1 x key)) = t1
   \<and> timestamp (fst (Signer_sign rt t2 x (snd (Signer_sign rt t1 x key)))) = t2
   \<and> signature (fst (Signer_sign rt t1 x None))
       = btoa (subtleSign rt (importKey rt PRIVATE_KEY_JWK) (stringify rt x))"
  by (simp add: Signer_sign_result Signer_key_after split: option.splits)

end
